theory Spec2Isabelle
  imports Main
begin

section \<open>Text\<close>

text \<open>
  A JavaScript string is modelled as a \<^typ>\<open>string\<close>: one \<^typ>\<open>char\<close> per code unit,
  for code units below 256. The regular expressions of the source are written out as
  list functions, one per \<^verbatim>\<open>replace\<close>/\<^verbatim>\<open>split\<close> call.
\<close>

definition newline :: char where
  "newline = CHR 0x0A"

definition apostrophe :: char where
  "apostrophe = CHR 0x27"

definition lower_letters :: string where
  "lower_letters = ''abcdefghijklmnopqrstuvwxyz''"

definition upper_letters :: string where
  "upper_letters = ''ABCDEFGHIJKLMNOPQRSTUVWXYZ''"

definition digits :: string where
  "digits = ''0123456789''"

text \<open>\<^verbatim>\<open>\s\<close> and \<^verbatim>\<open>trim()\<close>: tab, LF, VT, FF, CR, space and the no-break space.\<close>

definition is_space :: "char \<Rightarrow> bool" where
  "is_space c \<longleftrightarrow>
     c \<in> set [CHR 0x09, CHR 0x0A, CHR 0x0B, CHR 0x0C, CHR 0x0D, CHR 0x20, CHR 0xA0]"

text \<open>\<^verbatim>\<open>\d\<close>\<close>

definition is_digit :: "char \<Rightarrow> bool" where
  "is_digit c \<longleftrightarrow> c \<in> set digits"

text \<open>\<^verbatim>\<open>[a-zA-Z0-9]\<close>\<close>

definition is_alnum :: "char \<Rightarrow> bool" where
  "is_alnum c \<longleftrightarrow> c \<in> set lower_letters \<or> c \<in> set upper_letters \<or> c \<in> set digits"

text \<open>\<^verbatim>\<open>[a-zA-Z0-9_]\<close>\<close>

definition is_word :: "char \<Rightarrow> bool" where
  "is_word c \<longleftrightarrow> is_alnum c \<or> c = CHR ''_''"

text \<open>\<^verbatim>\<open>[A-Z0-9_]\<close>, the alphabet of a constant key.\<close>

definition is_const_char :: "char \<Rightarrow> bool" where
  "is_const_char c \<longleftrightarrow> c \<in> set upper_letters \<or> c \<in> set digits \<or> c = CHR ''_''"

text \<open>
  \<^verbatim>\<open>toUpperCase()\<close> and \<^verbatim>\<open>toLowerCase()\<close> on the letters a to z; every other code unit
  of the model is left as it is.
\<close>

definition upper_char :: "char \<Rightarrow> char" where
  "upper_char c = (case map_of (zip lower_letters upper_letters) c of Some u \<Rightarrow> u | None \<Rightarrow> c)"

definition lower_char :: "char \<Rightarrow> char" where
  "lower_char c = (case map_of (zip upper_letters lower_letters) c of Some l \<Rightarrow> l | None \<Rightarrow> c)"

definition toUpperCase :: "string \<Rightarrow> string" where
  "toUpperCase s = map upper_char s"

definition toLowerCase :: "string \<Rightarrow> string" where
  "toLowerCase s = map lower_char s"

text \<open>\<^verbatim>\<open>trim()\<close>\<close>

definition trimStart :: "string \<Rightarrow> string" where
  "trimStart s = dropWhile is_space s"

definition trimEnd :: "string \<Rightarrow> string" where
  "trimEnd s = rev (dropWhile is_space (rev s))"

definition trim :: "string \<Rightarrow> string" where
  "trim s = trimEnd (trimStart s)"

text \<open>\<^verbatim>\<open>replace(/\s+/g, '_')\<close>: every maximal run of white space becomes one underscore.\<close>

function replace_space_runs :: "string \<Rightarrow> string" where
  "replace_space_runs [] = []"
| "replace_space_runs (c # cs) =
     (if is_space c then CHR ''_'' # replace_space_runs (dropWhile is_space cs)
      else c # replace_space_runs cs)"
  by pat_completeness auto
termination
  by (relation "measure length") (auto simp: le_imp_less_Suc length_dropWhile_le)

text \<open>\<^verbatim>\<open>replace(/[^a-zA-Z0-9_]/g, '')\<close>\<close>

definition strip_non_word :: "string \<Rightarrow> string" where
  "strip_non_word s = filter is_word s"

text \<open>\<^verbatim>\<open>replace(/[^a-zA-Z0-9_]/g, '_')\<close>\<close>

definition mask_non_word :: "string \<Rightarrow> string" where
  "mask_non_word s = map (\<lambda>c. if is_word c then c else CHR ''_'') s"

text \<open>\<^verbatim>\<open>replace(/[^a-zA-Z0-9]/g, '_')\<close>\<close>

definition mask_non_alnum :: "string \<Rightarrow> string" where
  "mask_non_alnum s = map (\<lambda>c. if is_alnum c then c else CHR ''_'') s"

text \<open>\<^verbatim>\<open>replace(/^(\d)/, '_$1')\<close>\<close>

definition guard_leading_digit :: "string \<Rightarrow> string" where
  "guard_leading_digit s =
     (case s of [] \<Rightarrow> [] | c # cs \<Rightarrow> if is_digit c then CHR ''_'' # c # cs else c # cs)"

text \<open>\<^verbatim>\<open>replace(/s$/, '')\<close>: without the multiline flag, \<^verbatim>\<open>$\<close> is the end of the string.\<close>

definition strip_plural :: "string \<Rightarrow> string" where
  "strip_plural s = (if s \<noteq> [] \<and> last s = CHR ''s'' then butlast s else s)"

text \<open>\<^verbatim>\<open>replace(/\n{3,}/g, '\n\n')\<close>: a maximal run of three or more line feeds becomes two.\<close>

function collapse_newlines :: "string \<Rightarrow> string" where
  "collapse_newlines [] = []"
| "collapse_newlines (c # cs) =
     (if c = newline then
        (let run = takeWhile (\<lambda>d. d = newline) cs;
             rest = dropWhile (\<lambda>d. d = newline) cs
         in (if 2 \<le> length run then [newline, newline] else newline # run)
            @ collapse_newlines rest)
      else c # collapse_newlines cs)"
  by pat_completeness auto
termination
  by (relation "measure length") (auto simp: le_imp_less_Suc length_dropWhile_le)

text \<open>
  \<^verbatim>\<open>split(/[-_]/)\<close>, here for any separator class: the pieces between the separators,
  empty pieces included, so the result is never the empty list.
\<close>

fun split_on :: "(char \<Rightarrow> bool) \<Rightarrow> string \<Rightarrow> string list" where
  "split_on sep [] = [[]]"
| "split_on sep (c # cs) =
     (if sep c then [] # split_on sep cs
      else (case split_on sep cs of
              [] \<Rightarrow> [[c]]
            | w # ws \<Rightarrow> (c # w) # ws))"

definition is_dash_or_underscore :: "char \<Rightarrow> bool" where
  "is_dash_or_underscore c \<longleftrightarrow> c = CHR ''-'' \<or> c = CHR ''_''"

text \<open>\<^verbatim>\<open>join(sep)\<close>\<close>

fun join :: "string \<Rightarrow> string list \<Rightarrow> string" where
  "join sep [] = []"
| "join sep [x] = x"
| "join sep (x # y # ys) = x @ sep @ join sep (y # ys)"

text \<open>
  \<^verbatim>\<open>word.charAt(0).toUpperCase() + word.slice(1)\<close>, for a word that starts with an
  ASCII character; JavaScript also maps letters beyond ASCII, which \<open>upper_char\<close> leaves.
\<close>

definition capitalize :: "string \<Rightarrow> string" where
  "capitalize w = (case w of [] \<Rightarrow> [] | c # cs \<Rightarrow> upper_char c # cs)"

text \<open>\<^verbatim>\<open>.split(/[-_]/).map(word => ...).join('')\<close>\<close>

definition pascalCase :: "string \<Rightarrow> string" where
  "pascalCase s = join [] (map capitalize (split_on is_dash_or_underscore s))"

text \<open>The lines of a text, and a line that holds white space only (or nothing).\<close>

definition is_newline :: "char \<Rightarrow> bool" where
  "is_newline c \<longleftrightarrow> c = newline"

definition lines_of :: "string \<Rightarrow> string list" where
  "lines_of s = split_on is_newline s"

definition is_blank :: "string \<Rightarrow> bool" where
  "is_blank l \<longleftrightarrow> list_all is_space l"

text \<open>Whether the text \<open>t\<close> occurs in the text \<open>s\<close>.\<close>

fun starts_with :: "string \<Rightarrow> string \<Rightarrow> bool" where
  "starts_with s [] = True"
| "starts_with [] (d # t) = False"
| "starts_with (c # s) (d # t) = (c = d \<and> starts_with s t)"

fun contains_text :: "string \<Rightarrow> string \<Rightarrow> bool" where
  "contains_text [] t = (t = [])"
| "contains_text (c # s) t = (starts_with (c # s) t \<or> contains_text s t)"

section \<open>The input schema\<close>

text \<open>
  \<^verbatim>\<open>AppwriteAttribute\<close> with the fields of \<^verbatim>\<open>RelationshipAttribute\<close>, which the code reads
  through a cast. An optional field that is \<^verbatim>\<open>undefined\<close> is \<open>None\<close>; \<^verbatim>\<open>required\<close>,
  \<^verbatim>\<open>array\<close> and \<^verbatim>\<open>twoWay\<close> are only tested for truth. \<^verbatim>\<open>key\<close> and \<^verbatim>\<open>type\<close> are strings,
  \<^verbatim>\<open>size\<close> a natural number.
\<close>

record AppwriteAttribute =
  key :: string
  attr_type :: string
  required :: bool
  array :: bool
  attr_size :: "nat option"
  elements :: "string list option"
  format :: "string option"
  relatedCollection :: "string option"
  relationType :: "string option"
  twoWay :: bool
  twoWayKey :: "string option"
  side :: "string option"
  onDelete :: "string option"

text \<open>A collection as the generators read it.\<close>

record collection =
  name :: string
  attributes :: "AppwriteAttribute list"

text \<open>A database of the input document: \<^verbatim>\<open>$id\<close> and \<^verbatim>\<open>name\<close>.\<close>

record database =
  database_id :: string
  database_name :: string

text \<open>
  A collection of the input document: \<^verbatim>\<open>$id\<close>, \<^verbatim>\<open>name\<close> and \<^verbatim>\<open>attributes\<close>
  (\<open>None\<close>: the property is missing).
\<close>

record input_collection =
  collection_id :: string
  collection_name :: string
  collection_attributes :: "AppwriteAttribute list option"

text \<open>
  The parsed input document, \<^verbatim>\<open>inputConfig\<close>: \<^verbatim>\<open>null\<close>, a value that is no object
  (every property of it reads as \<^verbatim>\<open>undefined\<close>), or an object with the two properties
  the code reads; \<open>None\<close> is a property that is missing. A property that holds a value
  other than an array is not part of the model.
\<close>

record schema =
  databases :: "database list option"
  collections :: "input_collection list option"

datatype parsed = JSONnull | JSONprimitive | JSONobject schema

section \<open>Errors (errors.ts)\<close>

text \<open>
  What a \<^verbatim>\<open>throw\<close> carries, as far as the code tells the cases apart:
  a \<^verbatim>\<open>GeneratorError\<close> (the subclass \<^verbatim>\<open>FileSystemError\<close> is one, by \<^verbatim>\<open>instanceof\<close>),
  any other \<^verbatim>\<open>Error\<close> with its message, or a value that is no \<^verbatim>\<open>Error\<close>, with the
  text \<^verbatim>\<open>String(value)\<close>.
\<close>

datatype thrown =
    GeneratorError string
  | FileSystemError string
  | Error string
  | NonError string

fun instanceof_GeneratorError :: "thrown \<Rightarrow> bool" where
  "instanceof_GeneratorError (GeneratorError m) = True"
| "instanceof_GeneratorError (FileSystemError m) = True"
| "instanceof_GeneratorError (Error m) = False"
| "instanceof_GeneratorError (NonError v) = False"

text \<open>\<^verbatim>\<open>error instanceof Error ? error.message : String(error)\<close>\<close>

fun message_of :: "thrown \<Rightarrow> string" where
  "message_of (GeneratorError m) = m"
| "message_of (FileSystemError m) = m"
| "message_of (Error m) = m"
| "message_of (NonError v) = v"

text \<open>\<^verbatim>\<open>new FileSystemError(message)\<close>: the constructor prefixes the message.\<close>

definition newFileSystemError :: "string \<Rightarrow> thrown" where
  "newFileSystemError m = FileSystemError (''File System Error: '' @ m)"

section \<open>Identifier constants (id-constants-generator.ts)\<close>

text \<open>
  An optional property of a configuration object that the code reads with \<^verbatim>\<open>??\<close>:
  not written, written as \<^verbatim>\<open>undefined\<close>, or holding a value.
\<close>

datatype 'a property = Absent | Undefined | Defined 'a

text \<open>
  \<^verbatim>\<open>{ ...defaults, ...config }\<close> for one such property: a property that is written
  replaces the default, also when it holds \<^verbatim>\<open>undefined\<close>.
\<close>

fun spread_prop :: "'a option \<Rightarrow> 'a property \<Rightarrow> 'a option" where
  "spread_prop d Absent = d"
| "spread_prop d Undefined = None"
| "spread_prop d (Defined v) = Some v"

text \<open>
  \<^verbatim>\<open>IDConstantsGenerationConfig\<close> as the caller writes it. The other four properties
  are absent (\<open>None\<close>) or hold a value.
\<close>

record IDConstantsGenerationConfig =
  generateDatabaseConstants_prop :: "bool property"
  generateCollectionConstants_prop :: "bool property"
  constantPrefix_prop :: "string option"
  constantSuffix_prop :: "string option"
  namingTransform_prop :: "(string \<Rightarrow> string) option"
  includeComments_prop :: "bool option"

text \<open>The merged configuration, \<^verbatim>\<open>fullConfig\<close>; \<open>None\<close> is \<^verbatim>\<open>undefined\<close>.\<close>

record FullIDConstantsConfig =
  generateDatabaseConstants_flag :: "bool option"
  generateCollectionConstants_flag :: "bool option"
  constantPrefix :: string
  constantSuffix :: string
  namingTransform :: "string \<Rightarrow> string"
  includeComments :: bool

definition defaultNamingTransform :: "string \<Rightarrow> string" where
  "defaultNamingTransform name' = strip_non_word (replace_space_runs (trim name'))"

definition formatConstantName ::
  "string \<Rightarrow> string \<Rightarrow> string \<Rightarrow> (string \<Rightarrow> string) \<Rightarrow> string" where
  "formatConstantName name' prefix suffix transform =
     (let transformedName = transform name';
          sanitizedName = guard_leading_digit (mask_non_word transformedName)
      in prefix @ toUpperCase sanitizedName @ suffix)"

definition ID_DEFAULT_CONFIG :: FullIDConstantsConfig where
  "ID_DEFAULT_CONFIG =
     \<lparr> generateDatabaseConstants_flag = Some True,
       generateCollectionConstants_flag = Some True,
       constantPrefix = [],
       constantSuffix = [],
       namingTransform = defaultNamingTransform,
       includeComments = True \<rparr>"

text \<open>\<^verbatim>\<open>{ ...this.DEFAULT_CONFIG, ...config }\<close>\<close>

definition mergeIDConfig :: "FullIDConstantsConfig \<Rightarrow> IDConstantsGenerationConfig \<Rightarrow> FullIDConstantsConfig" where
  "mergeIDConfig d c =
     \<lparr> generateDatabaseConstants_flag =
         spread_prop (generateDatabaseConstants_flag d) (generateDatabaseConstants_prop c),
       generateCollectionConstants_flag =
         spread_prop (generateCollectionConstants_flag d) (generateCollectionConstants_prop c),
       constantPrefix = (case constantPrefix_prop c of None \<Rightarrow> constantPrefix d | Some p \<Rightarrow> p),
       constantSuffix = (case constantSuffix_prop c of None \<Rightarrow> constantSuffix d | Some s \<Rightarrow> s),
       namingTransform = (case namingTransform_prop c of None \<Rightarrow> namingTransform d | Some f \<Rightarrow> f),
       includeComments = (case includeComments_prop c of None \<Rightarrow> includeComments d | Some b \<Rightarrow> b) \<rparr>"

definition databaseConstantEntry :: "FullIDConstantsConfig \<Rightarrow> database \<Rightarrow> string" where
  \<open>databaseConstantEntry config db =
     (let constantName = formatConstantName (database_name db) (constantPrefix config)
                           (constantSuffix config) (namingTransform config);
          comment = (if includeComments config
                     then ''  /** Database ID for '' @ database_name db @ '' */'' @ [newline]
                     else [])
      in comment @ ''  '' @ constantName @ '': '' @ [apostrophe] @ database_id db
           @ [apostrophe] @ '','')\<close>

definition generateDatabaseConstants :: "database list \<Rightarrow> FullIDConstantsConfig \<Rightarrow> string" where
  "generateDatabaseConstants databases' config =
     join [newline] (map (databaseConstantEntry config) databases')"

definition collectionConstantEntry :: "FullIDConstantsConfig \<Rightarrow> input_collection \<Rightarrow> string" where
  \<open>collectionConstantEntry config collection =
     (let constantName = formatConstantName (collection_name collection) (constantPrefix config)
                           (constantSuffix config) (namingTransform config);
          comment = (if includeComments config
                     then ''  /** Collection ID for '' @ collection_name collection @ '' */'' @ [newline]
                     else [])
      in comment @ ''  '' @ constantName @ '': '' @ [apostrophe] @ collection_id collection
           @ [apostrophe] @ '','')\<close>

definition generateCollectionConstants :: "input_collection list \<Rightarrow> FullIDConstantsConfig \<Rightarrow> string" where
  "generateCollectionConstants collections' config =
     join [newline] (map (collectionConstantEntry config) collections')"

text \<open>
  \<^verbatim>\<open>${flag ?? table}\<close>: the table is the value only when the flag is \<^verbatim>\<open>undefined\<close>;
  a boolean flag is the value itself and is printed as \<^verbatim>\<open>true\<close> or \<^verbatim>\<open>false\<close>.
\<close>

definition coalesce_text :: "bool option \<Rightarrow> string \<Rightarrow> string" where
  "coalesce_text flag table =
     (case flag of None \<Rightarrow> table | Some b \<Rightarrow> (if b then ''true'' else ''false''))"

definition databaseTable :: "string \<Rightarrow> string" where
  \<open>databaseTable databaseConstants =
     ''/** Database identifiers for the project */'' @ [newline]
     @ ''      export const DATABASE_IDS = {'' @ [newline]
     @ ''      '' @ databaseConstants @ [newline]
     @ ''      };''\<close>

definition collectionTable :: "string \<Rightarrow> string" where
  \<open>collectionTable collectionConstants =
     ''/** Collection identifiers for the project */'' @ [newline]
     @ ''      export const COLLECTION_IDS = {'' @ [newline]
     @ ''      '' @ collectionConstants @ [newline]
     @ ''      };''\<close>

text \<open>\<^verbatim>\<open>x || []\<close>\<close>

definition or_empty :: "'a list option \<Rightarrow> 'a list" where
  "or_empty x = (case x of None \<Rightarrow> [] | Some xs \<Rightarrow> xs)"

definition validateInputConfig :: "parsed \<Rightarrow> thrown + schema" where
  "validateInputConfig inputConfig =
     (case inputConfig of
        JSONobject s \<Rightarrow> Inr s
      | _ \<Rightarrow> Inl (Error ''Invalid input configuration: Must be a non-null object''))"

definition generateIDConstants :: "parsed \<Rightarrow> IDConstantsGenerationConfig \<Rightarrow> thrown + string" where
  \<open>generateIDConstants inputConfig config =
     (let fullConfig = mergeIDConfig ID_DEFAULT_CONFIG config
      in case validateInputConfig inputConfig of
           Inl e \<Rightarrow> Inl e
         | Inr s \<Rightarrow>
             (let databaseConstants =
                    generateDatabaseConstants (or_empty (databases s)) fullConfig;
                  collectionConstants =
                    generateCollectionConstants (or_empty (collections s)) fullConfig
              in Inr ([newline]
                   @ ''      '' @ coalesce_text (generateDatabaseConstants_flag fullConfig)
                                  (databaseTable databaseConstants) @ [newline]
                   @ [newline]
                   @ ''      '' @ coalesce_text (generateCollectionConstants_flag fullConfig)
                                  (collectionTable collectionConstants) @ [newline]
                   @ ''    '')))\<close>

section \<open>Attribute conversion (type-converters.ts)\<close>

definition PRIMITIVE_TYPE_MAP :: "(string \<times> string) list" where
  "PRIMITIVE_TYPE_MAP =
     [(''string'', ''string''),
      (''integer'', ''number''),
      (''float'', ''number''),
      (''boolean'', ''boolean''),
      (''datetime'', ''string'')]"

record ConvertContext =
  collectionName :: "string option"
  attributeName :: "string option"

text \<open>\<^verbatim>\<open>validateAttribute\<close>: an empty string is falsy.\<close>

definition validateAttribute :: "AppwriteAttribute \<Rightarrow> thrown + unit" where
  "validateAttribute attribute =
     (if key attribute = [] then Inl (Error ''Attribute must have a valid string key'')
      else if attr_type attribute = [] then Inl (Error ''Attribute must have a valid string type'')
      else Inr ())"

text \<open>\<^verbatim>\<open>elements.map(e => `"${e}"`).join(' | ')\<close>\<close>

definition literal_union :: "string list \<Rightarrow> string" where
  \<open>literal_union es = join '' | '' (map (\<lambda>e. ''"'' @ e @ ''"'') es)\<close>

definition handleEnumType :: "AppwriteAttribute \<Rightarrow> string" where
  "handleEnumType attribute =
     (let enumValues = literal_union (case elements attribute of None \<Rightarrow> [] | Some es \<Rightarrow> es)
      in if array attribute then ''('' @ enumValues @ '')[]'' else enumValues)"

definition handleArrayType :: "AppwriteAttribute \<Rightarrow> string \<Rightarrow> string" where
  "handleArrayType attribute baseType =
     (case elements attribute of
        Some (e # es) \<Rightarrow> ''('' @ literal_union (e # es) @ '')[]''
      | _ \<Rightarrow> ''Array<'' @ baseType @ ''>'')"

text \<open>\<^verbatim>\<open>x ?? 'unknown'\<close>\<close>

definition or_unknown :: "string option \<Rightarrow> string" where
  "or_unknown x = (case x of None \<Rightarrow> ''unknown'' | Some v \<Rightarrow> v)"

definition handleUnsupportedType :: "AppwriteAttribute \<Rightarrow> ConvertContext option \<Rightarrow> thrown" where
  "handleUnsupportedType attribute context =
     (let errorContext =
            (case context of
               Some ctx \<Rightarrow> ''in '' @ or_unknown (collectionName ctx) @ '' collection, attribute ''
                            @ or_unknown (attributeName ctx)
             | None \<Rightarrow> [])
      in Error (''Unsupported attribute type: '' @ attr_type attribute @ '' '' @ errorContext))"

text \<open>
  The name of the related type, in the order of the source:
  split, capitalize, join, and only then \<^verbatim>\<open>replace(/s$/, '')\<close>.
\<close>

definition relatedTypeName :: "string \<Rightarrow> string" where
  "relatedTypeName relatedCollection' = strip_plural (pascalCase relatedCollection')"

text \<open>
  \<^verbatim>\<open>convertToTSType\<close>. Reading \<^verbatim>\<open>.split\<close> of a \<^verbatim>\<open>relatedCollection\<close> that is
  \<^verbatim>\<open>undefined\<close> throws a \<^verbatim>\<open>TypeError\<close>.
\<close>

definition convertToTSType :: "AppwriteAttribute \<Rightarrow> ConvertContext option \<Rightarrow> thrown + string" where
  "convertToTSType attribute context =
     (case validateAttribute attribute of
        Inl e \<Rightarrow> Inl e
      | Inr _ \<Rightarrow>
          if format attribute = Some ''enum''
               \<and> (case elements attribute of None \<Rightarrow> False | Some es \<Rightarrow> es \<noteq> [])
          then Inr (handleEnumType attribute)
          else if attr_type attribute = ''relationship'' then
            (case relatedCollection attribute of
               None \<Rightarrow> Inl (Error ''Cannot read properties of undefined (reading 'split')'')
             | Some rc \<Rightarrow>
                 (let name = relatedTypeName rc in
                  if relationType attribute = Some ''oneToMany'' then
                    Inr (if side attribute = Some ''parent'' then name @ ''[]''
                         else name @ '' | null'')
                  else if relationType attribute = Some ''manyToOne'' then
                    Inr (if side attribute = Some ''parent'' then name @ '' | null''
                         else name @ ''[]'')
                  else if relationType attribute = Some ''oneToOne''
                            \<or> relationType attribute = Some ''manyToMany'' then
                    Inr (name @ ''[]'')
                  else Inr ''string | RelationshipReference''))
          else
            (case map_of PRIMITIVE_TYPE_MAP (attr_type attribute) of
               None \<Rightarrow> Inl (handleUnsupportedType attribute context)
             | Some baseType \<Rightarrow>
                 if array attribute then Inr (handleArrayType attribute baseType)
                 else Inr baseType))"

section \<open>Enums and union types (enum-generator.ts)\<close>

datatype naming = Pascal | Camel | Snake

text \<open>\<^verbatim>\<open>EnumGenerationConfig\<close> as given (\<open>None\<close>: the property is absent) and as merged.\<close>

record EnumGenerationConfig =
  generateEnums_prop :: "bool option"
  generateUnionTypes_prop :: "bool option"
  namingStrategy_prop :: "naming option"

record FullEnumConfig =
  generateEnums :: bool
  generateUnionTypes :: bool
  namingStrategy :: naming

definition ENUM_DEFAULT_CONFIG :: FullEnumConfig where
  "ENUM_DEFAULT_CONFIG =
     \<lparr> generateEnums = True, generateUnionTypes = True, namingStrategy = Pascal \<rparr>"

definition mergeEnumConfig :: "FullEnumConfig \<Rightarrow> EnumGenerationConfig \<Rightarrow> FullEnumConfig" where
  "mergeEnumConfig d c =
     \<lparr> generateEnums = (case generateEnums_prop c of None \<Rightarrow> generateEnums d | Some b \<Rightarrow> b),
       generateUnionTypes =
         (case generateUnionTypes_prop c of None \<Rightarrow> generateUnionTypes d | Some b \<Rightarrow> b),
       namingStrategy =
         (case namingStrategy_prop c of None \<Rightarrow> namingStrategy d | Some n \<Rightarrow> n) \<rparr>"

text \<open>
  A JavaScript \<^verbatim>\<open>Map\<close> from strings, as the list of its entries in insertion order.
  \<^verbatim>\<open>set\<close> on a key that is present replaces the value where the entry stands.
\<close>

fun map_set :: "(string \<times> 'v) list \<Rightarrow> string \<Rightarrow> 'v \<Rightarrow> (string \<times> 'v) list" where
  "map_set [] k v = [(k, v)]"
| "map_set ((k', v') # m) k v = (if k' = k then (k, v) # m else (k', v') # map_set m k v)"

definition generateTypeName :: "string \<Rightarrow> string \<Rightarrow> string" where
  "generateTypeName collectionName' attributeName' =
     (let formattedCollection = pascalCase (strip_plural collectionName');
          formattedAttribute = pascalCase attributeName'
      in formattedCollection @ formattedAttribute)"

text \<open>The test of \<^verbatim>\<open>extractEnumTypes\<close> for an enum attribute.\<close>

definition is_enum_attribute :: "AppwriteAttribute \<Rightarrow> bool" where
  "is_enum_attribute attr \<longleftrightarrow>
     format attr = Some ''enum''
     \<and> (case elements attr of None \<Rightarrow> False | Some es \<Rightarrow> 0 < length es)"

definition extractEnumAttribute ::
  "string \<Rightarrow> (string \<times> string list) list \<Rightarrow> AppwriteAttribute \<Rightarrow> (string \<times> string list) list" where
  "extractEnumAttribute collectionName' enumTypes attr =
     (if is_enum_attribute attr
      then map_set enumTypes (generateTypeName collectionName' (key attr))
             (case elements attr of None \<Rightarrow> [] | Some es \<Rightarrow> es)
      else enumTypes)"

definition extractEnumCollection ::
  "(string \<times> string list) list \<Rightarrow> collection \<Rightarrow> (string \<times> string list) list" where
  "extractEnumCollection enumTypes c =
     foldl (extractEnumAttribute (name c)) enumTypes (attributes c)"

definition extractEnumTypes :: "collection list \<Rightarrow> (string \<times> string list) list" where
  "extractEnumTypes collections' = foldl extractEnumCollection [] collections'"

definition formatEnumKey :: "string \<Rightarrow> naming \<Rightarrow> string" where
  "formatEnumKey v strategy =
     (let sanitizedKey = toUpperCase (mask_non_alnum v)
      in case strategy of
           Pascal \<Rightarrow> sanitizedKey
         | Camel \<Rightarrow> (case sanitizedKey of [] \<Rightarrow> [] | c # cs \<Rightarrow> lower_char c # cs)
         | Snake \<Rightarrow> toLowerCase sanitizedKey)"

definition enumMember :: "naming \<Rightarrow> string \<Rightarrow> string" where
  \<open>enumMember strategy element =
     (let formattedKey = formatEnumKey element strategy
      in ''  /** Represents the '' @ element @ '' option */\<newline>  ''
         @ formattedKey @ '' = "'' @ element @ ''"'')\<close>

definition generateEnum :: "string \<Rightarrow> string list \<Rightarrow> naming \<Rightarrow> string" where
  \<open>generateEnum typeName elements' strategy =
     (let enumValues = join '',\<newline>'' (map (enumMember strategy) elements')
      in ''\<newline>/**\<newline> * Enum representing '' @ typeName
         @ ''\<newline> * Provides type-safe representation of possible values\<newline> */\<newline>export enum ''
         @ typeName @ '' {\<newline>'' @ enumValues @ ''\<newline>}\<newline>'')\<close>

definition generateUnionType :: "string \<Rightarrow> string list \<Rightarrow> string" where
  \<open>generateUnionType typeName elements' =
     (let unionType = literal_union elements'
      in ''\<newline>/**\<newline> * Union type representing '' @ typeName
         @ ''\<newline> * Provides flexible type definition for possible values\<newline> */\<newline>export type ''
         @ typeName @ ''Type = '' @ unionType @ '';\<newline>'')\<close>

text \<open>
  \<^verbatim>\<open>generateEnumDefinitions\<close>: the pair (\<^verbatim>\<open>enumDefinitions\<close>, \<^verbatim>\<open>typeDefinitions\<close>),
  each the concatenation over the entries of the map, in order.
\<close>

definition generateEnumDefinitions :: "collection list \<Rightarrow> EnumGenerationConfig \<Rightarrow> string \<times> string" where
  "generateEnumDefinitions collections' config =
     (let fullConfig = mergeEnumConfig ENUM_DEFAULT_CONFIG config;
          enumTypes = extractEnumTypes collections'
      in (concat (map (\<lambda>(typeName, es).
                    if generateEnums fullConfig
                    then generateEnum typeName es (namingStrategy fullConfig) else []) enumTypes),
          concat (map (\<lambda>(typeName, es).
                    if generateUnionTypes fullConfig
                    then generateUnionType typeName es else []) enumTypes)))"

section \<open>Interfaces (interface-generator.ts)\<close>

text \<open>\<^verbatim>\<open>InterfaceGenerationConfig\<close> as given (\<open>None\<close>: the property is absent) and as merged.\<close>

record InterfaceGenerationConfig =
  includeMetadata_prop :: "bool option"
  optionalMetadata_prop :: "bool option"
  interfacePrefix_prop :: "string option"
  interfaceSuffix_prop :: "string option"

record FullInterfaceConfig =
  includeMetadata :: bool
  optionalMetadata :: bool
  interfacePrefix :: string
  interfaceSuffix :: string

definition INTERFACE_DEFAULT_CONFIG :: FullInterfaceConfig where
  "INTERFACE_DEFAULT_CONFIG =
     \<lparr> includeMetadata = True, optionalMetadata = True,
       interfacePrefix = [], interfaceSuffix = [] \<rparr>"

definition mergeInterfaceConfig ::
  "FullInterfaceConfig \<Rightarrow> InterfaceGenerationConfig \<Rightarrow> FullInterfaceConfig" where
  "mergeInterfaceConfig d c =
     \<lparr> includeMetadata = (case includeMetadata_prop c of None \<Rightarrow> includeMetadata d | Some b \<Rightarrow> b),
       optionalMetadata = (case optionalMetadata_prop c of None \<Rightarrow> optionalMetadata d | Some b \<Rightarrow> b),
       interfacePrefix = (case interfacePrefix_prop c of None \<Rightarrow> interfacePrefix d | Some p \<Rightarrow> p),
       interfaceSuffix = (case interfaceSuffix_prop c of None \<Rightarrow> interfaceSuffix d | Some x \<Rightarrow> x) \<rparr>"

text \<open>
  A natural number in a template: its decimal digits, as JavaScript prints a whole number
  below \<open>10\<^sup>2\<^sup>1\<close>.
\<close>

function string_of_nat :: "nat \<Rightarrow> string" where
  "string_of_nat n =
     (if n < 10 then [digits ! n] else string_of_nat (n div 10) @ [digits ! (n mod 10)])"
  by pat_completeness auto
termination
  by (relation "measure id") auto

text \<open>An optional string in a template: \<^verbatim>\<open>undefined\<close> prints as that word.\<close>

definition show_optional :: "string option \<Rightarrow> string" where
  "show_optional x = (case x of None \<Rightarrow> ''undefined'' | Some v \<Rightarrow> v)"

definition generateAttributeComments :: "AppwriteAttribute \<Rightarrow> string" where
  "generateAttributeComments attribute =
     (let comments =
            (case attr_size attribute of
               Some n \<Rightarrow> if n \<noteq> 0
                         then [''/** Maximum size: '' @ string_of_nat n @ '' characters */'']
                         else []
             | None \<Rightarrow> [])
          @ (case elements attribute of
               Some es \<Rightarrow> if format attribute = Some ''enum''
                          then [''/** Possible values: '' @ join '', '' es @ '' */'']
                          else []
             | None \<Rightarrow> [])
          @ (if attr_type attribute = ''relationship''
             then [''/** Relationship type: '' @ show_optional (relationType attribute) @ '' */'',
                   ''/** Related collection: '' @ show_optional (relatedCollection attribute)
                     @ '' */'']
                  @ (if twoWay attribute
                     then [''/** Two-way relationship with key: ''
                           @ show_optional (twoWayKey attribute) @ '' */'']
                     else [])
                  @ [''/** Deletion behavior: '' @ show_optional (onDelete attribute) @ '' */'']
             else [])
      in concat (map (\<lambda>comment. ''  '' @ comment @ [newline]) comments))"

definition generateAttributeDefinition :: "AppwriteAttribute \<Rightarrow> thrown + string" where
  "generateAttributeDefinition attribute =
     (let optional = (if \<not> required attribute then ''?'' else [])
      in case convertToTSType attribute
                (Some \<lparr> collectionName = None, attributeName = Some (key attribute) \<rparr>) of
           Inl e \<Rightarrow> Inl e
         | Inr typeName \<Rightarrow>
             (let comments = generateAttributeComments attribute
              in Inr (comments @ ''  '' @ key attribute @ optional @ '': '' @ typeName @ '';'')))"

text \<open>\<^verbatim>\<open>xs.map(f)\<close> where \<open>f\<close> may throw: the first throw ends the loop.\<close>

fun map_throwing :: "('a \<Rightarrow> thrown + 'b) \<Rightarrow> 'a list \<Rightarrow> thrown + 'b list" where
  "map_throwing f [] = Inr []"
| "map_throwing f (x # xs) =
     (case f x of
        Inl e \<Rightarrow> Inl e
      | Inr y \<Rightarrow> (case map_throwing f xs of Inl e \<Rightarrow> Inl e | Inr ys \<Rightarrow> Inr (y # ys)))"

definition generateAttributeDefinitions :: "AppwriteAttribute list \<Rightarrow> thrown + string" where
  "generateAttributeDefinitions attributes' =
     (case map_throwing generateAttributeDefinition attributes' of
        Inl e \<Rightarrow> Inl e
      | Inr defs \<Rightarrow> Inr (join [newline] (filter (\<lambda>d. d \<noteq> []) defs)))"

definition addMetadataFields :: "string \<Rightarrow> bool \<Rightarrow> string" where
  \<open>addMetadataFields attributes' optional =
     (let optionalMarker = (if optional then ''?'' else []);
          metadataFields =
            ''\<newline>  /** Unique document identifier */\<newline>  $id'' @ optionalMarker
            @ '': string;\<newline>\<newline>  /** Document creation timestamp */\<newline>  $createdAt''
            @ optionalMarker
            @ '': string;\<newline>\<newline>  /** Document last update timestamp */\<newline>  $updatedAt''
            @ optionalMarker
            @ '': string;\<newline>\<newline>  /** Database identifier */\<newline>  $databaseId''
            @ optionalMarker
            @ '': string;\<newline>\<newline>  /** Collection identifier */\<newline>  $collectionId''
            @ optionalMarker
            @ '': string;\<newline>\<newline>  /** Document-level permissions */\<newline>  $permissions''
            @ optionalMarker @ '': string[];\<newline>''
      in metadataFields @ (if attributes' \<noteq> [] then [newline] @ attributes' else []))\<close>

definition generateInterfaceName :: "string \<Rightarrow> string \<Rightarrow> string \<Rightarrow> string" where
  "generateInterfaceName collectionName' prefix suffix =
     (let formattedName = pascalCase (strip_plural collectionName')
      in prefix @ formattedName @ suffix)"

definition generateCollectionInterface :: "collection \<Rightarrow> FullInterfaceConfig \<Rightarrow> thrown + string" where
  \<open>generateCollectionInterface c config =
     (let interfaceName =
            generateInterfaceName (name c) (interfacePrefix config) (interfaceSuffix config)
      in case generateAttributeDefinitions (attributes c) of
           Inl e \<Rightarrow> Inl e
         | Inr attributes' \<Rightarrow>
             (let interfaceContent =
                    (if includeMetadata config
                     then addMetadataFields attributes' (optionalMetadata config)
                     else attributes')
              in Inr (''\<newline>/**\<newline> * Represents a '' @ name c
                      @ '' document in the Appwrite database\<newline> * @interface\<newline> */\<newline>export interface ''
                      @ interfaceName @ '' {\<newline>'' @ interfaceContent @ ''\<newline>}\<newline>'')))\<close>

definition generateInterfaces :: "collection list \<Rightarrow> InterfaceGenerationConfig \<Rightarrow> thrown + string" where
  "generateInterfaces collections' config =
     (let fullConfig = mergeInterfaceConfig INTERFACE_DEFAULT_CONFIG config
      in case map_throwing (\<lambda>c. generateCollectionInterface c fullConfig) collections' of
           Inl e \<Rightarrow> Inl e
         | Inr texts \<Rightarrow> Inr (join [newline] texts))"

section \<open>The pipeline (index.ts)\<close>

text \<open>What a transformer is given besides the text.\<close>

record TransformContext =
  context_inputConfig :: parsed
  context_collections :: "collection list"

type_synonym TypeTransformer = "string \<Rightarrow> TransformContext \<Rightarrow> thrown + string"

text \<open>\<^verbatim>\<open>TypeGeneratorConfig\<close> as the caller gives it; \<open>None\<close> is a property left out.\<close>

record TypeGeneratorConfig =
  inputPath :: "string option"
  outputPath :: "string option"
  enumConfig :: "EnumGenerationConfig option"
  interfaceConfig :: "InterfaceGenerationConfig option"
  transformers :: "TypeTransformer list option"
  idConstantsConfig :: "IDConstantsGenerationConfig option"

text \<open>\<^verbatim>\<open>this.config\<close>, built by the constructor.\<close>

record GeneratorConfig =
  this_inputPath :: "string option"
  this_outputPath :: "string option"
  this_enumConfig :: EnumGenerationConfig
  this_interfaceConfig :: InterfaceGenerationConfig
  this_transformers :: "TypeTransformer list"
  this_idConstantsConfig :: IDConstantsGenerationConfig

definition first_some :: "'a option \<Rightarrow> 'a \<Rightarrow> 'a option" where
  "first_some given dflt = (case given of None \<Rightarrow> Some dflt | Some v \<Rightarrow> Some v)"

definition TypesGenerator :: "TypeGeneratorConfig \<Rightarrow> GeneratorConfig" where
  "TypesGenerator config =
     \<lparr> this_inputPath = inputPath config,
       this_outputPath = outputPath config,
       this_enumConfig =
         (case enumConfig config of
            None \<Rightarrow> \<lparr> generateEnums_prop = Some True, generateUnionTypes_prop = Some True,
                      namingStrategy_prop = Some Pascal \<rparr>
          | Some e \<Rightarrow> \<lparr> generateEnums_prop = first_some (generateEnums_prop e) True,
                        generateUnionTypes_prop = first_some (generateUnionTypes_prop e) True,
                        namingStrategy_prop = first_some (namingStrategy_prop e) Pascal \<rparr>),
       this_interfaceConfig =
         (case interfaceConfig config of
            None \<Rightarrow> \<lparr> includeMetadata_prop = Some True, optionalMetadata_prop = Some True,
                      interfacePrefix_prop = Some [], interfaceSuffix_prop = Some [] \<rparr>
          | Some i \<Rightarrow> \<lparr> includeMetadata_prop = first_some (includeMetadata_prop i) True,
                        optionalMetadata_prop = first_some (optionalMetadata_prop i) True,
                        interfacePrefix_prop = first_some (interfacePrefix_prop i) [],
                        interfaceSuffix_prop = first_some (interfaceSuffix_prop i) [] \<rparr>),
       this_transformers = or_empty (transformers config),
       this_idConstantsConfig =
         (case idConstantsConfig config of
            None \<Rightarrow> \<lparr> generateDatabaseConstants_prop = Absent,
                      generateCollectionConstants_prop = Absent,
                      constantPrefix_prop = Some [], constantSuffix_prop = Some [],
                      namingTransform_prop = None, includeComments_prop = Some True \<rparr>
          | Some k \<Rightarrow> \<lparr> generateDatabaseConstants_prop = generateDatabaseConstants_prop k,
                        generateCollectionConstants_prop = generateCollectionConstants_prop k,
                        constantPrefix_prop = first_some (constantPrefix_prop k) [],
                        constantSuffix_prop = first_some (constantSuffix_prop k) [],
                        namingTransform_prop = namingTransform_prop k,
                        includeComments_prop = first_some (includeComments_prop k) True \<rparr>) \<rparr>"

text \<open>
  What the run finds outside the program: the files that can be read, with their text
  (\<^verbatim>\<open>fs.readFile\<close>), the result of \<^verbatim>\<open>JSON.parse\<close> on a text (\<open>Inl\<close>: the message of
  its \<^verbatim>\<open>SyntaxError\<close>), and the time stamp \<^verbatim>\<open>new Date().toISOString()\<close>.
\<close>

record world =
  files :: "string \<Rightarrow> string option"
  JSON_parse :: "string \<Rightarrow> string + parsed"
  timestamp :: string

text \<open>
  \<^verbatim>\<open>FileSystemUtils.readFile\<close> (file-system.ts): whatever fails inside, also resolving a
  path that is \<^verbatim>\<open>undefined\<close>, is thrown again as a \<^verbatim>\<open>FileSystemError\<close>.
\<close>

definition readFile :: "world \<Rightarrow> string option \<Rightarrow> thrown + string" where
  "readFile w filePath =
     (case (case filePath of None \<Rightarrow> None | Some p \<Rightarrow> files w p) of
        None \<Rightarrow> Inl (newFileSystemError (''Unable to read file: '' @ show_optional filePath))
      | Some content \<Rightarrow> Inr content)"

definition validateConfiguration :: "GeneratorConfig \<Rightarrow> thrown + unit" where
  "validateConfiguration config =
     (if this_inputPath config = None \<or> this_inputPath config = Some []
      then Inl (GeneratorError ''Input path is required for type generation'')
      else if this_outputPath config = None \<or> this_outputPath config = Some []
      then Inl (GeneratorError ''Output path is required for type generation'')
      else Inr ())"

definition readInputConfiguration :: "world \<Rightarrow> GeneratorConfig \<Rightarrow> thrown + parsed" where
  "readInputConfiguration w config =
     (case (case readFile w (this_inputPath config) of
              Inl e \<Rightarrow> Inl e
            | Inr configContent \<Rightarrow>
                (case JSON_parse w configContent of
                   Inl m \<Rightarrow> Inl (Error m)
                 | Inr v \<Rightarrow> Inr v)) of
        Inl e \<Rightarrow> Inl (GeneratorError
                        (''Failed to read or parse input configuration: '' @ message_of e))
      | Inr v \<Rightarrow> Inr v)"

definition extractProcessableCollections :: "parsed \<Rightarrow> thrown + collection list" where
  "extractProcessableCollections inputConfig =
     (case inputConfig of
        JSONnull \<Rightarrow> Inl (Error ''Cannot read properties of null (reading 'collections')'')
      | JSONprimitive \<Rightarrow> Inl (GeneratorError ''No collections found in input configuration'')
      | JSONobject s \<Rightarrow>
          (case collections s of
             None \<Rightarrow> Inl (GeneratorError ''No collections found in input configuration'')
           | Some cs \<Rightarrow>
               Inr (map (\<lambda>c. \<lparr> name = collection_name c,
                                attributes = or_empty (collection_attributes c) \<rparr>)
                      (filter (\<lambda>c. case collection_attributes c of
                                      None \<Rightarrow> False | Some as \<Rightarrow> 0 < length as) cs))))"

definition header :: "string \<Rightarrow> string" where
  "header now =
     ''// Auto-generated Appwrite Types\<newline>// Generated on '' @ now
     @ ''\<newline>// WARNING: This file is auto-generated. Do not modify manually.\<newline>\<newline>''"

definition generateInitialTypes ::
  "world \<Rightarrow> GeneratorConfig \<Rightarrow> collection list \<Rightarrow> parsed \<Rightarrow> thrown + string" where
  "generateInitialTypes w config collections' inputConfig =
     (let (enumDefinitions, typeDefinitions) =
            generateEnumDefinitions collections' (this_enumConfig config);
          generatedTypes = header (timestamp w) @ typeDefinitions @ [newline]
                           @ enumDefinitions @ [newline]
      in case generateInterfaces collections' (this_interfaceConfig config) of
           Inl e \<Rightarrow> Inl e
         | Inr interfaces \<Rightarrow>
             (case generateIDConstants inputConfig (this_idConstantsConfig config) of
                Inl e \<Rightarrow> Inl e
              | Inr constants \<Rightarrow> Inr (generatedTypes @ interfaces @ constants @ [newline])))"

text \<open>\<^verbatim>\<open>transformers.reduce(...)\<close>: a fold from the left that a throw ends.\<close>

fun applyCustomTransformations ::
  "TypeTransformer list \<Rightarrow> string \<Rightarrow> TransformContext \<Rightarrow> thrown + string" where
  "applyCustomTransformations [] types ctx = Inr types"
| "applyCustomTransformations (transformer # rest) types ctx =
     (case transformer types ctx of
        Inl e \<Rightarrow> Inl e
      | Inr types' \<Rightarrow> applyCustomTransformations rest types' ctx)"

definition formatGeneratedTypes :: "string \<Rightarrow> string" where
  "formatGeneratedTypes generatedTypes = trim (collapse_newlines generatedTypes) @ [newline]"

definition handleGenerationError :: "thrown \<Rightarrow> thrown" where
  "handleGenerationError error =
     (if instanceof_GeneratorError error then error
      else GeneratorError (''Unexpected error during type generation: '' @ message_of error))"

text \<open>The three steps inside the \<^verbatim>\<open>try\<close> block of \<^verbatim>\<open>generate\<close>, and the block itself.\<close>

definition load_stage :: "world \<Rightarrow> GeneratorConfig \<Rightarrow> thrown + parsed" where
  "load_stage w config =
     (case validateConfiguration config of
        Inl e \<Rightarrow> Inl e
      | Inr _ \<Rightarrow> readInputConfiguration w config)"

definition generate_stage ::
  "world \<Rightarrow> GeneratorConfig \<Rightarrow> parsed \<Rightarrow> thrown + (collection list \<times> string)" where
  "generate_stage w config inputConfig =
     (case extractProcessableCollections inputConfig of
        Inl e \<Rightarrow> Inl e
      | Inr processableCollections \<Rightarrow>
          (case generateInitialTypes w config processableCollections inputConfig of
             Inl e \<Rightarrow> Inl e
           | Inr generatedTypes \<Rightarrow> Inr (processableCollections, generatedTypes)))"

definition transform_stage ::
  "GeneratorConfig \<Rightarrow> parsed \<Rightarrow> collection list \<Rightarrow> string \<Rightarrow> thrown + string" where
  "transform_stage config inputConfig processableCollections generatedTypes =
     applyCustomTransformations (this_transformers config) generatedTypes
       \<lparr> context_inputConfig = inputConfig, context_collections = processableCollections \<rparr>"

definition try_block :: "world \<Rightarrow> GeneratorConfig \<Rightarrow> thrown + string" where
  "try_block w config =
     (case load_stage w config of
        Inl e \<Rightarrow> Inl e
      | Inr inputConfig \<Rightarrow>
          (case generate_stage w config inputConfig of
             Inl e \<Rightarrow> Inl e
           | Inr (processableCollections, generatedTypes) \<Rightarrow>
               (case transform_stage config inputConfig processableCollections generatedTypes of
                  Inl e \<Rightarrow> Inl e
                | Inr transformed \<Rightarrow> Inr (formatGeneratedTypes transformed))))"

definition generate :: "world \<Rightarrow> GeneratorConfig \<Rightarrow> thrown + string" where
  "generate w config =
     (case try_block w config of
        Inl error \<Rightarrow> Inl (handleGenerationError error)
      | Inr text \<Rightarrow> Inr text)"

section \<open>Example inputs\<close>

text \<open>The configuration that names the two paths and leaves everything else to the defaults.\<close>

definition default_config :: TypeGeneratorConfig where
  "default_config =
     \<lparr> inputPath = Some ''appwrite.json'', outputPath = Some ''types.ts'',
       enumConfig = None, interfaceConfig = None, transformers = None,
       idConstantsConfig = None \<rparr>"

text \<open>A run that finds the input file and parses it to the given schema.\<close>

definition world_of :: "schema \<Rightarrow> world" where
  "world_of s =
     \<lparr> files = (\<lambda>p. if p = ''appwrite.json'' then Some ''{}'' else None),
       JSON_parse = (\<lambda>t. Inr (JSONobject s)),
       timestamp = ''2024-01-01T00:00:00.000Z'' \<rparr>"

definition main_db :: database where
  "main_db = \<lparr> database_id = ''db1'', database_name = ''Main DB'' \<rparr>"

definition main_db_schema :: schema where
  "main_db_schema = \<lparr> databases = Some [main_db], collections = Some [] \<rparr>"

definition role_attribute :: AppwriteAttribute where
  "role_attribute =
     \<lparr> key = ''role'', attr_type = ''string'', required = True, array = False,
       attr_size = None, elements = Some [''admin'', ''member''], format = Some ''enum'',
       relatedCollection = None, relationType = None, twoWay = False, twoWayKey = None,
       side = None, onDelete = None \<rparr>"

definition users_schema :: schema where
  "users_schema =
     \<lparr> databases = None,
       collections = Some [\<lparr> collection_id = ''users'', collection_name = ''Users'',
                              collection_attributes = Some [role_attribute] \<rparr>] \<rparr>"

text \<open>The text of the run on \<open>users_schema\<close>.\<close>

definition users_text :: string where
  \<open>users_text = ''// Auto-generated Appwrite Types\<newline>// Generated on 2024-01-01T00:00:00.000Z\<newline>// WARNING: This file is auto-generated. Do not modify manually.\<newline>\<newline>/**\<newline> * Union type representing UserRole\<newline> * Provides flexible type definition for possible values\<newline> */\<newline>export type UserRoleType = "admin" | "member";\<newline>\<newline>/**\<newline> * Enum representing UserRole\<newline> * Provides type-safe representation of possible values\<newline> */\<newline>export enum UserRole {\<newline>  /** Represents the admin option */\<newline>  ADMIN = "admin",\<newline>  /** Represents the member option */\<newline>  MEMBER = "member"\<newline>}\<newline>\<newline>/**\<newline> * Represents a Users document in the Appwrite database\<newline> * @interface\<newline> */\<newline>export interface User {\<newline>\<newline>  /** Unique document identifier */\<newline>  $id?: string;\<newline>\<newline>  /** Document creation timestamp */\<newline>  $createdAt?: string;\<newline>\<newline>  /** Document last update timestamp */\<newline>  $updatedAt?: string;\<newline>\<newline>  /** Database identifier */\<newline>  $databaseId?: string;\<newline>\<newline>  /** Collection identifier */\<newline>  $collectionId?: string;\<newline>\<newline>  /** Document-level permissions */\<newline>  $permissions?: string[];\<newline>\<newline>  /** Possible values: admin, member */\<newline>  role: "admin" | "member";\<newline>}\<newline>\<newline>      true\<newline>\<newline>      true\<newline>''\<close>

text \<open>A relationship attribute with the given related collection, cardinality and side.\<close>

definition relation_attribute :: "string \<Rightarrow> string \<Rightarrow> string \<Rightarrow> AppwriteAttribute" where
  "relation_attribute related cardinality which =
     \<lparr> key = ''author'', attr_type = ''relationship'', required = False, array = False,
       attr_size = None, elements = None, format = None,
       relatedCollection = Some related, relationType = Some cardinality, twoWay = False,
       twoWayKey = None, side = Some which, onDelete = Some ''setNull'' \<rparr>"

text \<open>A transformer that throws an \<^verbatim>\<open>Error\<close>.\<close>

definition failing_transformer :: TypeTransformer where
  "failing_transformer types ctx = Inl (Error ''boom'')"

text \<open>A schema whose only attribute has a type outside the primitive table.\<close>

definition json_schema :: schema where
  "json_schema =
     \<lparr> databases = None,
       collections = Some [\<lparr> collection_id = ''users'', collection_name = ''Users'',
                              collection_attributes =
                                Some [role_attribute\<lparr>attr_type := ''json'', format := None\<rparr>] \<rparr>] \<rparr>"

text \<open>Two collections whose names give the same constant key and the same enum name.\<close>

definition users_one :: input_collection where
  "users_one = \<lparr> collection_id = ''c1'', collection_name = ''Users'',
                  collection_attributes = None \<rparr>"

definition users_two :: input_collection where
  "users_two = \<lparr> collection_id = ''c2'', collection_name = ''users'',
                  collection_attributes = None \<rparr>"

definition role_two :: AppwriteAttribute where
  "role_two = role_attribute\<lparr>elements := Some [''guest'']\<rparr>"

text \<open>A second database whose name gives the key of \<open>main_db\<close>.\<close>

definition main_db_two :: database where
  "main_db_two = \<lparr> database_id = ''db2'', database_name = ''main db'' \<rparr>"

text \<open>
  A schema with two databases and two collections that collide, and a configuration that
  leaves the metadata fields out and writes both table flags as \<^verbatim>\<open>undefined\<close>, so that
  the tables are printed.
\<close>

definition collide_schema :: schema where
  "collide_schema =
     \<lparr> databases = Some [main_db, main_db_two],
       collections = Some [users_one\<lparr>collection_attributes := Some [role_attribute]\<rparr>,
                           users_two\<lparr>collection_attributes := Some [role_two]\<rparr>] \<rparr>"

definition tables_config :: TypeGeneratorConfig where
  "tables_config =
     default_config\<lparr>interfaceConfig :=
       Some \<lparr> includeMetadata_prop = Some False, optionalMetadata_prop = None,
              interfacePrefix_prop = None, interfaceSuffix_prop = None \<rparr>,
       idConstantsConfig :=
       Some \<lparr> generateDatabaseConstants_prop = Undefined,
              generateCollectionConstants_prop = Undefined,
              constantPrefix_prop = None, constantSuffix_prop = None,
              namingTransform_prop = None, includeComments_prop = None \<rparr>\<rparr>"

definition no_enum_config :: EnumGenerationConfig where
  "no_enum_config =
     \<lparr> generateEnums_prop = None, generateUnionTypes_prop = None, namingStrategy_prop = None \<rparr>"

text \<open>The text of the run on \<open>collide_schema\<close> with \<open>tables_config\<close>.\<close>

definition collide_text :: string where
  \<open>collide_text = ''// Auto-generated Appwrite Types\<newline>// Generated on 2024-01-01T00:00:00.000Z\<newline>// WARNING: This file is auto-generated. Do not modify manually.\<newline>\<newline>/**\<newline> * Union type representing UserRole\<newline> * Provides flexible type definition for possible values\<newline> */\<newline>export type UserRoleType = "guest";\<newline>\<newline>/**\<newline> * Enum representing UserRole\<newline> * Provides type-safe representation of possible values\<newline> */\<newline>export enum UserRole {\<newline>  /** Represents the guest option */\<newline>  GUEST = "guest"\<newline>}\<newline>\<newline>/**\<newline> * Represents a Users document in the Appwrite database\<newline> * @interface\<newline> */\<newline>export interface User {\<newline>  /** Possible values: admin, member */\<newline>  role: "admin" | "member";\<newline>}\<newline>\<newline>/**\<newline> * Represents a users document in the Appwrite database\<newline> * @interface\<newline> */\<newline>export interface User {\<newline>  /** Possible values: guest */\<newline>  role: "guest";\<newline>}\<newline>\<newline>      /** Database identifiers for the project */\<newline>      export const DATABASE_IDS = {\<newline>        /** Database ID for Main DB */\<newline>  MAIN_DB: 'db1',\<newline>  /** Database ID for main db */\<newline>  MAIN_DB: 'db2',\<newline>      };\<newline>\<newline>      /** Collection identifiers for the project */\<newline>      export const COLLECTION_IDS = {\<newline>        /** Collection ID for Users */\<newline>  USERS: 'c1',\<newline>  /** Collection ID for users */\<newline>  USERS: 'c2',\<newline>      };\<newline>''\<close>

section \<open>The calls of \<^verbatim>\<open>Map.set\<close> that enum extraction makes\<close>

text \<open>
  The pairs that \<^verbatim>\<open>extractEnumTypes\<close> passes to \<^verbatim>\<open>enumTypes.set\<close>, in the order of the
  two nested loops, and the map after a list of such calls.
\<close>

definition enum_entries :: "collection list \<Rightarrow> (string \<times> string list) list" where
  "enum_entries cs =
     concat (map (\<lambda>c. map (\<lambda>a. (generateTypeName (name c) (key a), or_empty (elements a)))
                          (filter is_enum_attribute (attributes c))) cs)"

definition set_all :: "(string \<times> string list) list \<Rightarrow> (string \<times> string list) list
    \<Rightarrow> (string \<times> string list) list" where
  "set_all m es = foldl (\<lambda>m (k, v). map_set m k v) m es"

text \<open>
  The names of a list of calls in the order of their first occurrence, and the elements
  that the last call for a name passes.
\<close>

definition first_occurrences :: "'a list \<Rightarrow> 'a list" where
  "first_occurrences xs = rev (remdups (rev xs))"

definition last_elements :: "(string \<times> string list) list \<Rightarrow> string \<Rightarrow> string list" where
  "last_elements es n = (case map_of (rev es) n of None \<Rightarrow> [] | Some v \<Rightarrow> v)"

section \<open>Facts about the text functions\<close>

lemma starts_with_iff: "starts_with s t \<longleftrightarrow> (\<exists>q. s = t @ q)"
  by (induction s t rule: starts_with.induct) auto

lemma contains_text_iff: "contains_text s t \<longleftrightarrow> (\<exists>p q. s = p @ t @ q)"
proof (induction s)
  case Nil
  then show ?case by simp
next
  case (Cons c s)
  show ?case
  proof
    assume "contains_text (c # s) t"
    then consider "starts_with (c # s) t" | "contains_text s t" by auto
    then show "\<exists>p q. c # s = p @ t @ q"
    proof cases
      case 1
      then obtain q where "c # s = t @ q" using starts_with_iff by blast
      then have "c # s = [] @ t @ q" by simp
      then show ?thesis by blast
    next
      case 2
      then obtain p q where "s = p @ t @ q" using Cons.IH by blast
      then have "c # s = (c # p) @ t @ q" by simp
      then show ?thesis by blast
    qed
  next
    assume "\<exists>p q. c # s = p @ t @ q"
    then obtain p q where pq: "c # s = p @ t @ q" by blast
    show "contains_text (c # s) t"
    proof (cases p)
      case Nil
      with pq have "starts_with (c # s) t" using starts_with_iff by auto
      then show ?thesis by simp
    next
      case (Cons d p')
      with pq have "s = p' @ t @ q" by simp
      then have "contains_text s t" using Cons.IH by blast
      then show ?thesis by simp
    qed
  qed
qed

lemma contains_text_append: "contains_text (p @ t @ q) t"
  using contains_text_iff by blast

lemma contains_text_part:
  assumes "contains_text s t" and "u = p @ s @ q"
  shows "contains_text u t"
proof -
  from assms(1) obtain a b where "s = a @ t @ b" using contains_text_iff by blast
  with assms(2) have "u = (p @ a) @ t @ (b @ q)" by simp
  then show ?thesis using contains_text_iff by blast
qed

lemma upper_char_cases: "upper_char c = c \<or> upper_char c \<in> set upper_letters"
proof (cases "map_of (zip lower_letters upper_letters) c")
  case None
  then show ?thesis by (simp add: upper_char_def)
next
  case (Some u)
  then have "u \<in> set upper_letters"
    by (meson map_of_SomeD set_zip_rightD)
  with Some show ?thesis by (simp add: upper_char_def)
qed

lemma upper_char_lower:
  assumes "c \<in> set lower_letters"
  shows "upper_char c \<in> set upper_letters"
proof -
  have "length lower_letters = length upper_letters"
    by (simp add: lower_letters_def upper_letters_def)
  with assms obtain u where u: "map_of (zip lower_letters upper_letters) c = Some u"
    by (metis map_of_zip_is_Some)
  then have "u \<in> set upper_letters"
    by (meson map_of_SomeD set_zip_rightD)
  with u show ?thesis by (simp add: upper_char_def)
qed

lemma upper_char_const: "is_word c \<Longrightarrow> is_const_char (upper_char c)"
  using upper_char_cases [of c] upper_char_lower [of c]
  by (auto simp: is_word_def is_alnum_def is_const_char_def)

lemma upper_letter_not_digit: "c \<in> set upper_letters \<Longrightarrow> \<not> is_digit c"
  by (auto simp: upper_letters_def is_digit_def digits_def)

lemma upper_char_digit: "is_digit (upper_char c) \<Longrightarrow> is_digit c"
  using upper_char_cases [of c] upper_letter_not_digit by auto

lemma mask_non_word_word: "c \<in> set (mask_non_word s) \<Longrightarrow> is_word c"
  by (auto simp: mask_non_word_def is_word_def)

lemma guard_leading_digit_set: "set (guard_leading_digit s) \<subseteq> insert CHR ''_'' (set s)"
  by (auto simp: guard_leading_digit_def split: list.splits)

lemma guard_leading_digit_head: "guard_leading_digit s = c # cs \<Longrightarrow> \<not> is_digit c"
  by (auto simp: guard_leading_digit_def is_digit_def digits_def split: list.splits if_splits)

section \<open>Constant keys\<close>

text \<open>
  C9. For every non-empty name, the constant key derived with the default naming
  transform and an empty prefix and suffix consists of characters in \<^verbatim>\<open>[A-Z0-9_]\<close> only
  and does not start with a digit.
\<close>

theorem constant_key_alphabet:
  assumes "n \<noteq> []"
  shows "(\<forall>c \<in> set (formatConstantName n [] [] defaultNamingTransform). is_const_char c)
       \<and> (\<forall>c cs. formatConstantName n [] [] defaultNamingTransform = c # cs \<longrightarrow> \<not> is_digit c)"
proof -
  define t where "t = guard_leading_digit (mask_non_word (defaultNamingTransform n))"
  have k: "formatConstantName n [] [] defaultNamingTransform = map upper_char t"
    by (simp add: formatConstantName_def toUpperCase_def t_def)
  have w: "is_word c" if "c \<in> set t" for c
    using that guard_leading_digit_set [of "mask_non_word (defaultNamingTransform n)"]
      mask_non_word_word [of c "defaultNamingTransform n"]
    by (auto simp: t_def is_word_def)
  have a: "\<forall>c \<in> set (map upper_char t). is_const_char c"
    using w upper_char_const by auto
  have b: "\<not> is_digit c" if "map upper_char t = c # cs" for c cs
  proof -
    from that obtain d ds where t: "t = d # ds" and c: "c = upper_char d" by auto
    from t have "\<not> is_digit d" using guard_leading_digit_head t_def by metis
    with c show ?thesis using upper_char_digit by blast
  qed
  from a b show ?thesis unfolding k by blast
qed

theorem constant_key_alphabet_witness:
  "''9 lives'' \<noteq> []
   \<and> formatConstantName ''9 lives'' [] [] defaultNamingTransform = ''_9_LIVES''
   \<and> list_all is_const_char ''_9_LIVES''
   \<and> \<not> is_digit (hd ''_9_LIVES'')"
proof -
  have k: "formatConstantName ''9 lives'' [] [] defaultNamingTransform = ''_9_LIVES''"
    by code_simp
  have n: "''9 lives'' \<noteq> []" by simp
  show ?thesis using constant_key_alphabet [OF n] unfolding k by (simp add: list_all_iff)
qed

section \<open>Finalizing the text\<close>

lemma collapse_head: "collapse_newlines s = [] \<or> hd (collapse_newlines s) = hd s"
  by (cases s) (auto simp: Let_def)

lemma collapse_empty: "collapse_newlines s = [] \<longleftrightarrow> s = []"
  by (cases s) (auto simp: Let_def)

lemma no_triple_after_short_run:
  assumes "\<not> contains_text t [newline, newline, newline]" and "t = [] \<or> hd t \<noteq> newline"
  shows "\<not> contains_text (newline # t) [newline, newline, newline]"
    and "\<not> contains_text (newline # newline # t) [newline, newline, newline]"
  using assms by (cases t; auto)+

lemma collapse_no_triple: "\<not> contains_text (collapse_newlines s) [newline, newline, newline]"
proof (induction s rule: collapse_newlines.induct)
  case 1
  then show ?case by simp
next
  case (2 c cs)
  show ?case
  proof (cases "c = newline")
    case False
    with 2 show ?thesis by auto
  next
    case True
    define run where "run = takeWhile (\<lambda>d. d = newline) cs"
    define rest where "rest = dropWhile (\<lambda>d. d = newline) cs"
    define t where "t = collapse_newlines rest"
    have ih: "\<not> contains_text t [newline, newline, newline]"
      using 2(1) [OF True run_def rest_def] by (simp add: t_def)
    have "rest = [] \<or> hd rest \<noteq> newline"
      unfolding rest_def by (metis (mono_tags, lifting) hd_dropWhile)
    then have hd: "t = [] \<or> hd t \<noteq> newline"
      using collapse_head [of rest] collapse_empty [of rest] by (auto simp: t_def)
    have run: "run = replicate (length run) newline"
      unfolding run_def by (induction cs) auto
    have out: "collapse_newlines (c # cs) =
        (if 2 \<le> length run then [newline, newline] else newline # run) @ t"
      using True by (simp add: Let_def run_def rest_def t_def)
    consider "2 \<le> length run" | "length run = 1" | "length run = 0" by linarith
    then show ?thesis
    proof cases
      case 1
      then show ?thesis using out no_triple_after_short_run [OF ih hd] by simp
    next
      case 2
      then have "run = [newline]" using run by (metis One_nat_def replicate.simps(1,2))
      then show ?thesis using out 2 no_triple_after_short_run [OF ih hd] by simp
    next
      case 3
      then show ?thesis using out no_triple_after_short_run [OF ih hd] by simp
    qed
  qed
qed

lemma trim_decomp: "\<exists>p q. s = p @ trim s @ q"
proof -
  have a: "s = takeWhile is_space s @ trimStart s" by (simp add: trimStart_def)
  have "rev (trimStart s) =
      takeWhile is_space (rev (trimStart s)) @ dropWhile is_space (rev (trimStart s))"
    by simp
  then have "trimStart s = trim s @ rev (takeWhile is_space (rev (trimStart s)))"
    unfolding trim_def trimEnd_def by (metis rev_append rev_rev_ident)
  with a show ?thesis by metis
qed

lemma trim_ends:
  assumes "trim s \<noteq> []"
  shows "\<not> is_space (hd (trim s))" and "\<not> is_space (last (trim s))"
proof -
  let ?u = "trimStart s"
  from assms have r: "dropWhile is_space (rev ?u) \<noteq> []" by (simp add: trim_def trimEnd_def)
  then have "\<not> is_space (hd (dropWhile is_space (rev ?u)))" using hd_dropWhile by blast
  then show "\<not> is_space (last (trim s))"
    using r by (simp add: trim_def trimEnd_def last_rev)
  from assms have u: "?u \<noteq> []" by (auto simp: trim_def trimEnd_def)
  then have h: "\<not> is_space (hd ?u)" unfolding trimStart_def using hd_dropWhile by blast
  have "hd (trim s) = hd ?u"
  proof -
    obtain c cs where c: "?u = c # cs" using u by (cases ?u) auto
    have "dropWhile is_space (rev ?u) = dropWhile is_space (rev cs) @ [c]
        \<or> dropWhile is_space (rev ?u) = [c]"
      using c h by (auto simp: dropWhile_append)
    then show ?thesis using c by (auto simp: trim_def trimEnd_def)
  qed
  with h show "\<not> is_space (hd (trim s))" by simp
qed

text \<open>
  C7, as stated: the finalized text would have no run of more than one consecutive blank
  line. Only runs of line feeds are collapsed: two lines that hold a space each follow one
  another in the result.
\<close>

theorem whitespace_lines_counterexample:
  "formatGeneratedTypes ''a\<newline> \<newline> \<newline>b'' = ''a\<newline> \<newline> \<newline>b\<newline>''
   \<and> lines_of ''a\<newline> \<newline> \<newline>b\<newline>'' = [''a'', '' '', '' '', ''b'', []]
   \<and> is_blank '' ''"
  by code_simp

text \<open>
  C7, amended: for every text handed to \<^verbatim>\<open>formatGeneratedTypes\<close>, the result has no run
  of more than one consecutive empty line (no three line feeds in a row; lines that hold
  white space are not collapsed), is a body followed by one line feed, and the body
  neither starts nor ends with white space; so the result ends with exactly one line feed.
\<close>

theorem finalize_normal_form:
  "\<not> contains_text (formatGeneratedTypes s) [newline, newline, newline]
   \<and> (\<exists>body. formatGeneratedTypes s = body @ [newline]
         \<and> (body \<noteq> [] \<longrightarrow> \<not> is_space (hd body) \<and> \<not> is_space (last body)))"
proof -
  define body where "body = trim (collapse_newlines s)"
  have out: "formatGeneratedTypes s = body @ [newline]"
    by (simp add: formatGeneratedTypes_def body_def)
  have ends: "body \<noteq> [] \<longrightarrow> \<not> is_space (hd body) \<and> \<not> is_space (last body)"
    using trim_ends [of "collapse_newlines s"] by (simp add: body_def)
  obtain p q where pq: "collapse_newlines s = p @ body @ q"
    using trim_decomp [of "collapse_newlines s"] body_def by blast
  have inner: "\<not> contains_text body [newline, newline, newline]"
    using contains_text_part [OF _ pq] collapse_no_triple [of s] by blast
  have "\<not> contains_text (body @ [newline]) [newline, newline, newline]"
  proof
    assume "contains_text (body @ [newline]) [newline, newline, newline]"
    then obtain a b where ab: "body @ [newline] = a @ [newline, newline, newline] @ b"
      using contains_text_iff by blast
    show False
    proof (cases b rule: rev_cases)
      case Nil
      with ab have "body = a @ [newline, newline]" by simp
      then have "body \<noteq> []" and "last body = newline" by simp_all
      with ends show False by (simp add: is_space_def newline_def)
    next
      case (snoc b' x)
      with ab have "body = a @ [newline, newline, newline] @ b'" by simp
      with inner show False using contains_text_iff by blast
    qed
  qed
  with out ends show ?thesis by simp
qed

theorem finalize_normal_form_witness:
  "formatGeneratedTypes '' \<newline>a\<newline>\<newline>\<newline>\<newline>b \<newline>\<newline>\<newline> '' = ''a\<newline>\<newline>b\<newline>''
   \<and> \<not> contains_text ''a\<newline>\<newline>b\<newline>'' [newline, newline, newline]
   \<and> \<not> is_space (hd ''a\<newline>\<newline>b'') \<and> \<not> is_space (last ''a\<newline>\<newline>b'')"
proof -
  have k: "formatGeneratedTypes '' \<newline>a\<newline>\<newline>\<newline>\<newline>b \<newline>\<newline>\<newline> '' = ''a\<newline>\<newline>b\<newline>''"
    by code_simp
  show ?thesis using finalize_normal_form [of "'' \<newline>a\<newline>\<newline>\<newline>\<newline>b \<newline>\<newline>\<newline> ''"]
    unfolding k by (auto simp: newline_def)
qed


section \<open>Attribute conversion\<close>

lemma primitive_types:
  "set (map fst PRIMITIVE_TYPE_MAP) = {''string'', ''integer'', ''float'', ''boolean'', ''datetime''}"
  by (auto simp: PRIMITIVE_TYPE_MAP_def)

lemma primitive_lookup:
  "map_of PRIMITIVE_TYPE_MAP t = None \<longleftrightarrow> t \<notin> set (map fst PRIMITIVE_TYPE_MAP)"
  by (simp add: map_of_eq_None_iff)

lemma primitive_not_special:
  assumes "t \<in> set (map fst PRIMITIVE_TYPE_MAP)"
  shows "t \<noteq> []" and "t \<noteq> ''relationship''"
  using assms unfolding primitive_types by auto

text \<open>
  C3, as stated: every attribute whose type is not in the primitive table would fail
  with the unsupported-type error. A relationship attribute and an enum attribute with the
  type \<^verbatim>\<open>json\<close> have types outside the table and are converted.
\<close>

theorem unlisted_type_counterexample:
  \<open>attr_type (relation_attribute ''users'' ''manyToOne'' ''parent'')
       \<notin> set (map fst PRIMITIVE_TYPE_MAP)
   \<and> convertToTSType (relation_attribute ''users'' ''manyToOne'' ''parent'') None
       = Inr ''User | null''
   \<and> attr_type (role_attribute\<lparr>attr_type := ''json''\<rparr>) \<notin> set (map fst PRIMITIVE_TYPE_MAP)
   \<and> convertToTSType (role_attribute\<lparr>attr_type := ''json''\<rparr>) None
       = Inr ''"admin" | "member"''\<close>
  by code_simp

text \<open>
  C3, amended: for an attribute with a non-empty key whose type is not empty, not
  \<^verbatim>\<open>relationship\<close> and not in the primitive table, and that is not an enum attribute with
  elements, conversion fails with the error whose message is
  \<^verbatim>\<open>Unsupported attribute type: \<close> followed by that type (and the context);
  for an attribute with a non-empty key whose type is in the table, conversion
  succeeds, with a result that does not depend on the context.
\<close>

theorem convert_primitive_table:
  "(key a \<noteq> [] \<and> attr_type a \<noteq> [] \<and> attr_type a \<noteq> ''relationship''
      \<and> \<not> (format a = Some ''enum'' \<and> (\<exists>es. elements a = Some es \<and> es \<noteq> []))
      \<and> attr_type a \<notin> set (map fst PRIMITIVE_TYPE_MAP)
    \<longrightarrow> (\<exists>rest. convertToTSType a ctx
                 = Inl (Error (''Unsupported attribute type: '' @ attr_type a @ rest))))
   \<and> (key a \<noteq> [] \<and> attr_type a \<in> set (map fst PRIMITIVE_TYPE_MAP)
    \<longrightarrow> (\<exists>t. convertToTSType a ctx = Inr t)
        \<and> convertToTSType a ctx = convertToTSType a None)"
proof (intro conjI impI)
  assume h: "key a \<noteq> [] \<and> attr_type a \<noteq> [] \<and> attr_type a \<noteq> ''relationship''
      \<and> \<not> (format a = Some ''enum'' \<and> (\<exists>es. elements a = Some es \<and> es \<noteq> []))
      \<and> attr_type a \<notin> set (map fst PRIMITIVE_TYPE_MAP)"
  then have v: "validateAttribute a = Inr ()" by (simp add: validateAttribute_def)
  from h have e: "\<not> (format a = Some ''enum''
      \<and> (case elements a of None \<Rightarrow> False | Some es \<Rightarrow> es \<noteq> []))"
    by (auto split: option.splits)
  from h have m: "map_of PRIMITIVE_TYPE_MAP (attr_type a) = None"
    using primitive_lookup by blast
  from h have r: "attr_type a \<noteq> ''relationship''" by blast
  have "convertToTSType a ctx = Inl (handleUnsupportedType a ctx)"
    unfolding convertToTSType_def using v e m r by simp
  then show "\<exists>rest. convertToTSType a ctx
                 = Inl (Error (''Unsupported attribute type: '' @ attr_type a @ rest))"
    by (simp add: handleUnsupportedType_def Let_def)
next
  assume h: "key a \<noteq> [] \<and> attr_type a \<in> set (map fst PRIMITIVE_TYPE_MAP)"
  then have v: "validateAttribute a = Inr ()"
    using primitive_not_special(1) by (simp add: validateAttribute_def)
  from h have r: "attr_type a \<noteq> ''relationship''" using primitive_not_special(2) by blast
  from h obtain b where m: "map_of PRIMITIVE_TYPE_MAP (attr_type a) = Some b"
    using primitive_lookup by (cases "map_of PRIMITIVE_TYPE_MAP (attr_type a)") auto
  show "\<exists>t. convertToTSType a ctx = Inr t"
    unfolding convertToTSType_def using v r m by simp
  show "convertToTSType a ctx = convertToTSType a None"
    unfolding convertToTSType_def using v r m by simp
qed

theorem convert_primitive_table_witness:
  "convertToTSType (role_attribute\<lparr>attr_type := ''json'', format := None\<rparr>)
       (Some \<lparr> collectionName = None, attributeName = Some ''role'' \<rparr>)
     = Inl (Error ''Unsupported attribute type: json in unknown collection, attribute role'')
   \<and> convertToTSType (role_attribute\<lparr>attr_type := ''integer'', format := None\<rparr>) None = Inr ''number''"
proof -
  let ?a = "role_attribute\<lparr>attr_type := ''json'', format := None\<rparr>"
  let ?b = "role_attribute\<lparr>attr_type := ''integer'', format := None\<rparr>"
  let ?c = "Some \<lparr> collectionName = None, attributeName = Some ''role'' \<rparr>"
  have a: "key ?a \<noteq> [] \<and> attr_type ?a \<noteq> [] \<and> attr_type ?a \<noteq> ''relationship''
      \<and> \<not> (format ?a = Some ''enum'' \<and> (\<exists>es. elements ?a = Some es \<and> es \<noteq> []))
      \<and> attr_type ?a \<notin> set (map fst PRIMITIVE_TYPE_MAP)"
    by (simp add: role_attribute_def PRIMITIVE_TYPE_MAP_def)
  have b: "key ?b \<noteq> [] \<and> attr_type ?b \<in> set (map fst PRIMITIVE_TYPE_MAP)"
    by (simp add: role_attribute_def PRIMITIVE_TYPE_MAP_def)
  have ka: "convertToTSType ?a ?c
     = Inl (Error ''Unsupported attribute type: json in unknown collection, attribute role'')"
    by code_simp
  have kb: "convertToTSType ?b None = Inr ''number''"
    by code_simp
  from convert_primitive_table [of ?a ?c] a convert_primitive_table [of ?b None] b ka kb
  show ?thesis by simp
qed

text \<open>
  C10, as stated: every attribute with format \<^verbatim>\<open>enum\<close>, elements and a non-empty key
  would be converted, whatever its type string. With the empty type string the
  conversion fails in \<^verbatim>\<open>validateAttribute\<close>.
\<close>

theorem enum_with_empty_type_counterexample:
  "format (role_attribute\<lparr>attr_type := []\<rparr>) = Some ''enum''
   \<and> elements (role_attribute\<lparr>attr_type := []\<rparr>) = Some [''admin'', ''member'']
   \<and> key (role_attribute\<lparr>attr_type := []\<rparr>) = ''role''
   \<and> convertToTSType (role_attribute\<lparr>attr_type := []\<rparr>) None
       = Inl (Error ''Attribute must have a valid string type'')"
  by code_simp

text \<open>
  C10, amended: for every attribute with format \<^verbatim>\<open>enum\<close>, a non-empty element list, a
  non-empty key and a non-empty type string, conversion succeeds with the union of the
  quoted elements, wrapped as \<^verbatim>\<open>(...)[]\<close> for an array, whatever the type string is
  otherwise: the enum branch comes before the relationship branch and the table lookup.
\<close>

theorem enum_branch_first:
  assumes "key a \<noteq> []" and "attr_type a \<noteq> []"
    and "format a = Some ''enum''" and "elements a = Some es" and "es \<noteq> []"
  shows "convertToTSType a ctx =
           Inr (if array a then ''('' @ literal_union es @ '')[]'' else literal_union es)"
proof -
  have "validateAttribute a = Inr ()"
    using assms(1,2) by (simp add: validateAttribute_def)
  then show ?thesis
    unfolding convertToTSType_def using assms(3-5)
    by (simp add: handleEnumType_def Let_def)
qed

theorem enum_branch_first_witness:
  \<open>convertToTSType (role_attribute\<lparr>attr_type := ''json'', array := True\<rparr>) None
     = Inr ''("admin" | "member")[]''\<close>
proof -
  let ?a = "role_attribute\<lparr>attr_type := ''json'', array := True\<rparr>"
  have u: \<open>literal_union [''admin'', ''member''] = ''"admin" | "member"''\<close>
    by code_simp
  have "key ?a \<noteq> []" "attr_type ?a \<noteq> []" "format ?a = Some ''enum''"
    "elements ?a = Some [''admin'', ''member'']" "[''admin'', ''member''] \<noteq> []"
    by (simp_all add: role_attribute_def)
  from enum_branch_first [OF this, of None] show ?thesis
    by (simp add: u role_attribute_def)
qed

text \<open>
  C4, as stated: every relationship attribute would be converted to one of the shapes
  of the relationship branch. A relationship attribute that also has the format \<^verbatim>\<open>enum\<close>
  and elements is converted by the enum branch, which comes first.
\<close>

theorem relationship_enum_counterexample:
  \<open>attr_type ((relation_attribute ''users'' ''manyToOne'' ''parent'')
       \<lparr>format := Some ''enum'', elements := Some [''a'', ''b'']\<rparr>) = ''relationship''
   \<and> convertToTSType ((relation_attribute ''users'' ''manyToOne'' ''parent'')
       \<lparr>format := Some ''enum'', elements := Some [''a'', ''b'']\<rparr>) None = Inr ''"a" | "b"''\<close>
  by code_simp

text \<open>
  C4, amended: for every relationship attribute (non-empty key, related collection
  present) that is not an enum attribute with elements, the converted type is the array of
  the related type for oneToMany+parent, manyToOne+child, oneToOne and manyToMany, the
  nullable related type for oneToMany+child and manyToOne+parent, and the fallback
  \<^verbatim>\<open>string | RelationshipReference\<close> for any other cardinality; it is always one of these
  three forms and never an error.
\<close>

theorem relationship_shapes:
  assumes "key a \<noteq> []" and "attr_type a = ''relationship''"
    and "relatedCollection a = Some rc"
    and "\<not> (format a = Some ''enum'' \<and> (\<exists>es. elements a = Some es \<and> es \<noteq> []))"
  shows "(relationType a = Some ''oneToMany'' \<and> side a = Some ''parent''
            \<longrightarrow> convertToTSType a ctx = Inr (relatedTypeName rc @ ''[]''))
       \<and> (relationType a = Some ''oneToMany'' \<and> side a = Some ''child''
            \<longrightarrow> convertToTSType a ctx = Inr (relatedTypeName rc @ '' | null''))
       \<and> (relationType a = Some ''manyToOne'' \<and> side a = Some ''parent''
            \<longrightarrow> convertToTSType a ctx = Inr (relatedTypeName rc @ '' | null''))
       \<and> (relationType a = Some ''manyToOne'' \<and> side a = Some ''child''
            \<longrightarrow> convertToTSType a ctx = Inr (relatedTypeName rc @ ''[]''))
       \<and> (relationType a = Some ''oneToOne'' \<or> relationType a = Some ''manyToMany''
            \<longrightarrow> convertToTSType a ctx = Inr (relatedTypeName rc @ ''[]''))
       \<and> (relationType a \<notin> {Some ''oneToMany'', Some ''manyToOne'', Some ''oneToOne'',
                               Some ''manyToMany''}
            \<longrightarrow> convertToTSType a ctx = Inr ''string | RelationshipReference'')
       \<and> convertToTSType a ctx \<in> {Inr (relatedTypeName rc @ ''[]''),
                                   Inr (relatedTypeName rc @ '' | null''),
                                   Inr ''string | RelationshipReference''}"
proof -
  have v: "validateAttribute a = Inr ()"
    using assms(1,2) by (simp add: validateAttribute_def)
  have e: "(format a = Some ''enum''
      \<and> (case elements a of None \<Rightarrow> False | Some es \<Rightarrow> es \<noteq> [])) = False"
    using assms(4) by (auto split: option.splits)
  have c: "convertToTSType a ctx =
      (let n = relatedTypeName rc in
       if relationType a = Some ''oneToMany'' then
         Inr (if side a = Some ''parent'' then n @ ''[]'' else n @ '' | null'')
       else if relationType a = Some ''manyToOne'' then
         Inr (if side a = Some ''parent'' then n @ '' | null'' else n @ ''[]'')
       else if relationType a = Some ''oneToOne'' \<or> relationType a = Some ''manyToMany'' then
         Inr (n @ ''[]'')
       else Inr ''string | RelationshipReference'')"
    unfolding convertToTSType_def e using v assms(2,3) by simp
  show ?thesis unfolding c Let_def by auto
qed

theorem relationship_shapes_witness:
  "convertToTSType (relation_attribute ''posts'' ''oneToMany'' ''parent'') None = Inr ''Post[]''
   \<and> convertToTSType (relation_attribute ''posts'' ''oneToMany'' ''child'') None = Inr ''Post | null''
   \<and> convertToTSType (relation_attribute ''posts'' ''manyToOne'' ''parent'') None = Inr ''Post | null''
   \<and> convertToTSType (relation_attribute ''posts'' ''manyToOne'' ''child'') None = Inr ''Post[]''
   \<and> convertToTSType (relation_attribute ''posts'' ''oneToOne'' ''child'') None = Inr ''Post[]''
   \<and> convertToTSType (relation_attribute ''posts'' ''manyToMany'' ''parent'') None = Inr ''Post[]''
   \<and> convertToTSType (relation_attribute ''posts'' ''oneToFew'' ''parent'') None
       = Inr ''string | RelationshipReference''"
proof -
  have n: "relatedTypeName ''posts'' = ''Post''" by code_simp
  have h: "key (relation_attribute ''posts'' c s) \<noteq> []"
    "attr_type (relation_attribute ''posts'' c s) = ''relationship''"
    "relatedCollection (relation_attribute ''posts'' c s) = Some ''posts''"
    "\<not> (format (relation_attribute ''posts'' c s) = Some ''enum''
        \<and> (\<exists>es. elements (relation_attribute ''posts'' c s) = Some es \<and> es \<noteq> []))"
    for c s by (simp_all add: relation_attribute_def)
  note t = relationship_shapes [OF h, of _ _ None, unfolded n]
  have f: "relationType (relation_attribute r c s) = Some c"
    "side (relation_attribute r c s) = Some s" for r c s
    by (simp_all add: relation_attribute_def)
  show ?thesis
    using t [of "''oneToMany''" "''parent''"] t [of "''oneToMany''" "''child''"]
      t [of "''manyToOne''" "''parent''"] t [of "''manyToOne''" "''child''"]
      t [of "''oneToOne''" "''child''"] t [of "''manyToMany''" "''parent''"]
      t [of "''oneToFew''" "''parent''"]
    unfolding f by simp
qed

text \<open>
  C8. The claim derives the related type name by stripping the plural \<^verbatim>\<open>s\<close> first and
  then splitting and capitalizing, as \<^verbatim>\<open>generateInterfaceName\<close> does for the interface
  the name refers to. The converter strips last: for the related collection \<^verbatim>\<open>user_s\<close>
  it yields \<^verbatim>\<open>UserS\<close>, while the claim's order and the interface name give \<^verbatim>\<open>User\<close>.
\<close>

theorem related_name_order:
  "convertToTSType (relation_attribute ''user_s'' ''oneToMany'' ''parent'') None = Inr ''UserS[]''
   \<and> relatedTypeName ''user_s'' = ''UserS''
   \<and> pascalCase (strip_plural ''user_s'') = ''User''
   \<and> generateInterfaceName ''user_s'' [] [] = ''User''"
  by code_simp

section \<open>Errors of a run\<close>

lemma handleGenerationError_instance: "instanceof_GeneratorError (handleGenerationError e)"
  by (cases e) (simp_all add: handleGenerationError_def)

text \<open>
  C5, as stated: an error thrown by a transformer would reach the caller as thrown.
  The transformers run inside the same \<^verbatim>\<open>try\<close> block: an \<^verbatim>\<open>Error\<close> thrown by a
  transformer reaches the caller wrapped in a \<^verbatim>\<open>GeneratorError\<close>.
\<close>

theorem transformer_error_counterexample:
  "transform_stage (TypesGenerator (default_config\<lparr>transformers := Some [failing_transformer]\<rparr>))
       (JSONobject main_db_schema) [] [] = Inl (Error ''boom'')
   \<and> generate (world_of main_db_schema)
         (TypesGenerator (default_config\<lparr>transformers := Some [failing_transformer]\<rparr>))
       = Inl (GeneratorError ''Unexpected error during type generation: boom'')"
  by code_simp

text \<open>
  C5, amended: every error that \<^verbatim>\<open>generate\<close> surfaces is a \<^verbatim>\<open>GeneratorError\<close>. A failure
  to read or to parse the input surfaces with the message
  \<^verbatim>\<open>Failed to read or parse input configuration: \<close> followed by the cause's message; an
  error of the generate stage, and likewise an error thrown by a transformer, surfaces
  unchanged when it is a \<^verbatim>\<open>GeneratorError\<close> and otherwise as a \<^verbatim>\<open>GeneratorError\<close> with the
  message \<^verbatim>\<open>Unexpected error during type generation: \<close> followed by the cause's message.
\<close>

theorem generate_errors_wrapped:
  "(generate w cfg = Inl e \<longrightarrow> instanceof_GeneratorError e)
   \<and> (validateConfiguration cfg = Inr () \<and> readFile w (this_inputPath cfg) = Inl c
        \<longrightarrow> generate w cfg = Inl (GeneratorError
              (''Failed to read or parse input configuration: '' @ message_of c)))
   \<and> (validateConfiguration cfg = Inr () \<and> readFile w (this_inputPath cfg) = Inr content
          \<and> JSON_parse w content = Inl m
        \<longrightarrow> generate w cfg = Inl (GeneratorError
              (''Failed to read or parse input configuration: '' @ m)))
   \<and> (load_stage w cfg = Inr input \<and> generate_stage w cfg input = Inl c
        \<longrightarrow> generate w cfg = Inl (if instanceof_GeneratorError c then c
              else GeneratorError (''Unexpected error during type generation: '' @ message_of c)))
   \<and> (load_stage w cfg = Inr input \<and> generate_stage w cfg input = Inr (cs, t)
          \<and> transform_stage cfg input cs t = Inl c
        \<longrightarrow> generate w cfg = Inl (if instanceof_GeneratorError c then c
              else GeneratorError (''Unexpected error during type generation: '' @ message_of c)))"
proof (intro conjI impI)
  assume "generate w cfg = Inl e"
  then obtain e' where "e = handleGenerationError e'"
    by (auto simp: generate_def split: sum.splits)
  then show "instanceof_GeneratorError e" using handleGenerationError_instance by simp
next
  assume "validateConfiguration cfg = Inr () \<and> readFile w (this_inputPath cfg) = Inl c"
  then show "generate w cfg = Inl (GeneratorError
              (''Failed to read or parse input configuration: '' @ message_of c))"
    by (simp add: generate_def try_block_def load_stage_def readInputConfiguration_def
        handleGenerationError_def)
next
  assume "validateConfiguration cfg = Inr () \<and> readFile w (this_inputPath cfg) = Inr content
          \<and> JSON_parse w content = Inl m"
  then show "generate w cfg = Inl (GeneratorError
              (''Failed to read or parse input configuration: '' @ m))"
    by (simp add: generate_def try_block_def load_stage_def readInputConfiguration_def
        handleGenerationError_def)
next
  assume "load_stage w cfg = Inr input \<and> generate_stage w cfg input = Inl c"
  then show "generate w cfg = Inl (if instanceof_GeneratorError c then c
              else GeneratorError (''Unexpected error during type generation: '' @ message_of c))"
    by (simp add: generate_def try_block_def handleGenerationError_def)
next
  assume "load_stage w cfg = Inr input \<and> generate_stage w cfg input = Inr (cs, t)
          \<and> transform_stage cfg input cs t = Inl c"
  then show "generate w cfg = Inl (if instanceof_GeneratorError c then c
              else GeneratorError (''Unexpected error during type generation: '' @ message_of c))"
    by (simp add: generate_def try_block_def handleGenerationError_def)
qed

theorem generate_errors_wrapped_witness:
  "generate ((world_of main_db_schema)\<lparr>files := (\<lambda>p. None)\<rparr>) (TypesGenerator default_config)
     = Inl (GeneratorError ''Failed to read or parse input configuration: File System Error: Unable to read file: appwrite.json'')
   \<and> generate ((world_of main_db_schema)\<lparr>JSON_parse := (\<lambda>t. Inl ''Unexpected end of JSON input'')\<rparr>)
         (TypesGenerator default_config)
     = Inl (GeneratorError ''Failed to read or parse input configuration: Unexpected end of JSON input'')
   \<and> generate (world_of json_schema) (TypesGenerator default_config)
     = Inl (GeneratorError ''Unexpected error during type generation: Unsupported attribute type: json in unknown collection, attribute role'')
   \<and> generate (world_of main_db_schema)
         (TypesGenerator (default_config\<lparr>transformers := Some [failing_transformer]\<rparr>))
     = Inl (GeneratorError ''Unexpected error during type generation: boom'')
   \<and> instanceof_GeneratorError (GeneratorError ''Unexpected error during type generation: boom'')"
proof -
  let ?cfg = "TypesGenerator default_config"
  let ?w1 = "(world_of main_db_schema)\<lparr>files := (\<lambda>p. None)\<rparr>"
  let ?w2 = "(world_of main_db_schema)\<lparr>JSON_parse := (\<lambda>t. Inl ''Unexpected end of JSON input'')\<rparr>"
  let ?cfg4 = "TypesGenerator (default_config\<lparr>transformers := Some [failing_transformer]\<rparr>)"
  have v: "validateConfiguration ?cfg = Inr ()" by code_simp
  have r1: "readFile ?w1 (this_inputPath ?cfg)
      = Inl (FileSystemError ''File System Error: Unable to read file: appwrite.json'')"
    by code_simp
  have r2: "readFile ?w2 (this_inputPath ?cfg) = Inr ''{}''" by code_simp
  have p2: "JSON_parse ?w2 ''{}'' = Inl ''Unexpected end of JSON input''"
    by (simp add: world_of_def)
  have l3: "load_stage (world_of json_schema) ?cfg = Inr (JSONobject json_schema)"
    by code_simp
  have g3: "generate_stage (world_of json_schema) ?cfg (JSONobject json_schema)
      = Inl (Error ''Unsupported attribute type: json in unknown collection, attribute role'')"
    by code_simp
  have l4: "load_stage (world_of main_db_schema) ?cfg4 = Inr (JSONobject main_db_schema)"
    by code_simp
  have "map_sum id fst (generate_stage (world_of main_db_schema) ?cfg4
      (JSONobject main_db_schema)) = Inr []"
    by code_simp
  then obtain t where g4': "generate_stage (world_of main_db_schema) ?cfg4
      (JSONobject main_db_schema) = Inr ([], t)"
    by (cases "generate_stage (world_of main_db_schema) ?cfg4 (JSONobject main_db_schema)") auto
  have t4: "transform_stage ?cfg4 (JSONobject main_db_schema) [] t = Inl (Error ''boom'')"
    by (simp add: transform_stage_def TypesGenerator_def default_config_def or_empty_def
        failing_transformer_def)
  have a: "generate ?w1 ?cfg = Inl (GeneratorError
      ''Failed to read or parse input configuration: File System Error: Unable to read file: appwrite.json'')"
    using generate_errors_wrapped [of ?w1 ?cfg] v r1 by simp
  have b: "generate ?w2 ?cfg = Inl (GeneratorError
      ''Failed to read or parse input configuration: Unexpected end of JSON input'')"
    using generate_errors_wrapped [of ?w2 ?cfg _ _ "''{}''"] v r2 p2 by simp
  have c: "generate (world_of json_schema) ?cfg = Inl (GeneratorError
      ''Unexpected error during type generation: Unsupported attribute type: json in unknown collection, attribute role'')"
    using generate_errors_wrapped [of "world_of json_schema" ?cfg _ _ _ _ "JSONobject json_schema"] l3 g3
    by simp
  have d: "generate (world_of main_db_schema) ?cfg4
      = Inl (GeneratorError ''Unexpected error during type generation: boom'')"
    using generate_errors_wrapped [of "world_of main_db_schema" ?cfg4 _ _ _ _
        "JSONobject main_db_schema" "[]" t] l4 g4' t4
    by simp
  have e: "instanceof_GeneratorError (GeneratorError ''Unexpected error during type generation: boom'')"
    using generate_errors_wrapped [of "world_of main_db_schema" ?cfg4] d by blast
  from a b c d e show ?thesis by blast
qed

section \<open>Colliding names\<close>

lemma map_of_map_set: "map_of (map_set m k v) = (map_of m)(k \<mapsto> v)"
  by (induction m) auto

lemma keys_map_set: "fst ` set (map_set m k v) = insert k (fst ` set m)"
proof -
  have "fst ` set (map_set m k v) = dom (map_of (map_set m k v))"
    by (simp add: dom_map_of_conv_image_fst)
  also have "\<dots> = insert k (dom (map_of m))"
    by (simp add: map_of_map_set)
  finally show ?thesis by (simp add: dom_map_of_conv_image_fst)
qed

lemma distinct_map_set: "distinct (map fst m) \<Longrightarrow> distinct (map fst (map_set m k v))"
proof (induction m)
  case Nil
  then show ?case by simp
next
  case (Cons e m)
  obtain k' v' where e: "e = (k', v')" by (cases e)
  show ?case
  proof (cases "k' = k")
    case True
    with Cons.prems e show ?thesis by simp
  next
    case False
    have "k' \<notin> fst ` set (map_set m k v)"
      using Cons.prems False e keys_map_set [of m k v] by auto
    with Cons e False show ?thesis by simp
  qed
qed

lemma set_all_append: "set_all m (xs @ ys) = set_all (set_all m xs) ys"
  by (simp add: set_all_def)

lemma set_all_distinct: "distinct (map fst m) \<Longrightarrow> distinct (map fst (set_all m es))"
  unfolding set_all_def
  by (induction es arbitrary: m) (auto simp: distinct_map_set)

lemma set_all_lookup: "map_of (set_all m es) = map_of m ++ map_of (rev es)"
  unfolding set_all_def
proof (induction es arbitrary: m)
  case Nil
  then show ?case by simp
next
  case (Cons e es)
  obtain k v where e: "e = (k, v)" by (cases e)
  have "map_of (foldl (\<lambda>m (k, v). map_set m k v) (map_set m k v) es)
      = map_of (map_set m k v) ++ map_of (rev es)"
    using Cons.IH by blast
  also have "\<dots> = (map_of m)(k \<mapsto> v) ++ map_of (rev es)"
    by (simp add: map_of_map_set)
  also have "\<dots> = map_of m ++ map_of (rev es @ [(k, v)])"
    by (simp add: map_add_upd_left fun_eq_iff map_add_def split: option.splits)
  finally show ?case by (simp add: e)
qed

lemma extract_collection_set_all:
  "extractEnumCollection m c =
     set_all m (map (\<lambda>a. (generateTypeName (name c) (key a), or_empty (elements a)))
                  (filter is_enum_attribute (attributes c)))"
proof -
  have "foldl (extractEnumAttribute n) m as =
      set_all m (map (\<lambda>a. (generateTypeName n (key a), or_empty (elements a)))
                   (filter is_enum_attribute as))" for n as
    unfolding set_all_def
    by (induction as arbitrary: m) (auto simp: extractEnumAttribute_def or_empty_def)
  then show ?thesis by (simp add: extractEnumCollection_def)
qed

lemma extract_set_all: "foldl extractEnumCollection m cs = set_all m (enum_entries cs)"
proof (induction cs arbitrary: m)
  case Nil
  then show ?case by (simp add: enum_entries_def set_all_def)
next
  case (Cons c cs)
  have "enum_entries (c # cs) = enum_entries [c] @ enum_entries cs"
    by (simp add: enum_entries_def)
  then show ?case
    using Cons.IH [of "extractEnumCollection m c"]
    by (simp add: set_all_append extract_collection_set_all enum_entries_def)
qed

lemma first_occurrences_snoc:
  "first_occurrences (xs @ [k]) =
     (if k \<in> set xs then first_occurrences xs else first_occurrences xs @ [k])"
  by (simp add: first_occurrences_def)

lemma set_first_occurrences: "set (first_occurrences xs) = set xs"
  by (simp add: first_occurrences_def)

lemma keys_list_map_set:
  "map fst (map_set m k v) = (if k \<in> fst ` set m then map fst m else map fst m @ [k])"
  by (induction m) force+

lemma set_all_snoc: "set_all m (es @ [(k, v)]) = map_set (set_all m es) k v"
  by (simp add: set_all_def)

lemma keys_set_all: "map fst (set_all [] es) = first_occurrences (map fst es)"
proof (induction es rule: rev_induct)
  case Nil
  then show ?case by (simp add: set_all_def first_occurrences_def)
next
  case (snoc e es)
  obtain k v where e: "e = (k, v)" by (cases e)
  have s: "fst ` set (set_all [] es) = set (map fst es)"
    using snoc.IH set_first_occurrences [of "map fst es"]
    by (metis set_map)
  show ?case
    unfolding e set_all_snoc keys_list_map_set s
    using snoc.IH by (simp add: first_occurrences_snoc)
qed

lemma distinct_keys_rebuild:
  "distinct (map fst m) \<Longrightarrow>
     m = map (\<lambda>k. (k, case map_of m k of None \<Rightarrow> d | Some v \<Rightarrow> v)) (map fst m)"
proof (induction m)
  case Nil
  then show ?case by simp
next
  case (Cons e m)
  obtain k v where e: "e = (k, v)" by (cases e)
  from Cons.prems e have k: "k \<notin> fst ` set m" and dm: "distinct (map fst m)" by auto
  have "map (\<lambda>x. (x, case map_of ((k, v) # m) x of None \<Rightarrow> d | Some v \<Rightarrow> v)) (map fst m)
      = map (\<lambda>x. (x, case map_of m x of None \<Rightarrow> d | Some v \<Rightarrow> v)) (map fst m)"
    using k by (intro map_cong) auto
  also have "\<dots> = m" using Cons.IH [OF dm] by simp
  finally show ?case by (simp add: e)
qed

lemma extract_rebuild:
  "extractEnumTypes cs =
     map (\<lambda>n. (n, last_elements (enum_entries cs) n))
       (first_occurrences (map fst (enum_entries cs)))"
proof -
  let ?es = "enum_entries cs"
  have x: "extractEnumTypes cs = set_all [] ?es"
    by (simp add: extractEnumTypes_def extract_set_all)
  have d: "distinct (map fst (set_all [] ?es))"
    using set_all_distinct [of "[]"] by simp
  have l: "map_of (set_all [] ?es) = map_of (rev ?es)"
    by (simp add: set_all_lookup)
  show ?thesis
    unfolding x using distinct_keys_rebuild [OF d, of "[]"]
    by (simp add: l keys_set_all last_elements_def)
qed

lemma concat_map_if:
  "concat (map (\<lambda>x. if b then f x else []) xs) = (if b then concat (map f xs) else [])"
  by (induction xs) auto

lemma join_Cons: "join sep (x # xs) = x @ (if xs = [] then [] else sep @ join sep xs)"
  by (cases xs) simp_all

lemma join_occurs: "\<exists>p r. join sep (xs @ a # zs) = p @ a @ r"
proof (induction xs)
  case Nil
  have "join sep ([] @ a # zs) = [] @ a @ (if zs = [] then [] else sep @ join sep zs)"
    by (simp add: join_Cons)
  then show ?case by blast
next
  case (Cons x xs)
  then obtain p r where "join sep (xs @ a # zs) = p @ a @ r" by blast
  then have "join sep ((x # xs) @ a # zs) = (x @ sep @ p) @ a @ r"
    by (simp add: join_Cons)
  then show ?case by blast
qed

lemma join_in_order: "\<exists>p q r. join sep (xs @ a # ys @ b # zs) = p @ a @ q @ b @ r"
proof (induction xs)
  case Nil
  obtain p r where "join sep (ys @ b # zs) = p @ b @ r" using join_occurs by blast
  then have "join sep ([] @ a # ys @ b # zs) = [] @ a @ (sep @ p) @ b @ r"
    by (simp add: join_Cons)
  then show ?case by blast
next
  case (Cons x xs)
  then obtain p q r where "join sep (xs @ a # ys @ b # zs) = p @ a @ q @ b @ r" by blast
  then have "join sep ((x # xs) @ a # ys @ b # zs) = (x @ sep @ p) @ a @ q @ b @ r"
    by (simp add: join_Cons)
  then show ?case by blast
qed

text \<open>
  C6, as stated: of two collections with the same constant key only the later entry
  would be emitted. The table has one line per collection: both entries are in it.
\<close>

theorem same_key_counterexample:
  "formatConstantName (collection_name users_one) [] [] defaultNamingTransform = ''USERS''
   \<and> formatConstantName (collection_name users_two) [] [] defaultNamingTransform = ''USERS''
   \<and> generateCollectionConstants [users_one, users_two] ID_DEFAULT_CONFIG =
       ''  /** Collection ID for Users */\<newline>  USERS: '' @ [apostrophe] @ ''c1'' @ [apostrophe]
       @ '',\<newline>  /** Collection ID for users */\<newline>  USERS: '' @ [apostrophe] @ ''c2''
       @ [apostrophe] @ '',''"
  by code_simp

text \<open>
  C6, amended: when two enum attributes derive the same qualified type name, the emitted
  enum and union-type texts hold exactly one declaration for that name, standing where the
  name first occurred and built from the elements of the later attribute; the earlier
  attribute's declaration is not emitted. When two databases or two collections derive
  the same constant key, the table built for them holds the entries of both, the earlier
  before the later; nothing is merged or dropped.
\<close>

theorem collision_policy:
  "generateEnumDefinitions cs cfg =
     (let full = mergeEnumConfig ENUM_DEFAULT_CONFIG cfg;
          es = enum_entries cs;
          names = first_occurrences (map fst es)
      in (if generateEnums full
          then concat (map (\<lambda>n. generateEnum n (last_elements es n) (namingStrategy full)) names)
          else [],
          if generateUnionTypes full
          then concat (map (\<lambda>n. generateUnionType n (last_elements es n)) names)
          else []))
   \<and> distinct (first_occurrences (map fst (enum_entries cs)))
   \<and> distinct (map fst (extractEnumTypes cs))
   \<and> map_of (extractEnumTypes cs) = map_of (rev (enum_entries cs))
   \<and> (\<exists>p q r. generateCollectionConstants (xs @ c1 # ys @ c2 # zs) idc =
          p @ collectionConstantEntry idc c1 @ q @ collectionConstantEntry idc c2 @ r)
   \<and> (\<exists>p q r. generateDatabaseConstants (ds @ d1 # es @ d2 # fs) idc =
          p @ databaseConstantEntry idc d1 @ q @ databaseConstantEntry idc d2 @ r)"
proof -
  have x: "extractEnumTypes cs = set_all [] (enum_entries cs)"
    by (simp add: extractEnumTypes_def extract_set_all)
  have a: "generateEnumDefinitions cs cfg =
     (let full = mergeEnumConfig ENUM_DEFAULT_CONFIG cfg;
          es = enum_entries cs;
          names = first_occurrences (map fst es)
      in (if generateEnums full
          then concat (map (\<lambda>n. generateEnum n (last_elements es n) (namingStrategy full)) names)
          else [],
          if generateUnionTypes full
          then concat (map (\<lambda>n. generateUnionType n (last_elements es n)) names)
          else []))"
    unfolding generateEnumDefinitions_def Let_def extract_rebuild
    by (simp add: concat_map_if comp_def)
  have b: "distinct (first_occurrences (map fst (enum_entries cs)))"
    by (simp add: first_occurrences_def)
  have c: "distinct (map fst (extractEnumTypes cs))"
    unfolding x using set_all_distinct [of "[]"] by simp
  have d: "map_of (extractEnumTypes cs) = map_of (rev (enum_entries cs))"
    unfolding x by (simp add: set_all_lookup)
  have e: "\<exists>p q r. generateCollectionConstants (xs @ c1 # ys @ c2 # zs) idc =
          p @ collectionConstantEntry idc c1 @ q @ collectionConstantEntry idc c2 @ r"
    unfolding generateCollectionConstants_def
    using join_in_order [of "[newline]" "map (collectionConstantEntry idc) xs" _
        "map (collectionConstantEntry idc) ys" _ "map (collectionConstantEntry idc) zs"]
    by simp
  have f: "\<exists>p q r. generateDatabaseConstants (ds @ d1 # es @ d2 # fs) idc =
          p @ databaseConstantEntry idc d1 @ q @ databaseConstantEntry idc d2 @ r"
    unfolding generateDatabaseConstants_def
    using join_in_order [of "[newline]" "map (databaseConstantEntry idc) ds" _
        "map (databaseConstantEntry idc) es" _ "map (databaseConstantEntry idc) fs"]
    by simp
  from a b c d e f show ?thesis by blast
qed

lemma collide_run:
  "generate (world_of collide_schema) (TypesGenerator tables_config) = Inr collide_text"
  by code_simp

theorem collision_policy_witness:
  \<open>enum_entries [\<lparr>name = ''Users'', attributes = [role_attribute]\<rparr>,
                 \<lparr>name = ''users'', attributes = [role_two]\<rparr>]
     = [(''UserRole'', [''admin'', ''member'']), (''UserRole'', [''guest''])]
   \<and> generateEnumDefinitions [\<lparr>name = ''Users'', attributes = [role_attribute]\<rparr>,
                              \<lparr>name = ''users'', attributes = [role_two]\<rparr>] no_enum_config
     = (generateEnum ''UserRole'' [''guest''] Pascal, generateUnionType ''UserRole'' [''guest''])
   \<and> \<not> contains_text (generateEnum ''UserRole'' [''guest''] Pascal) ''ADMIN''
   \<and> formatConstantName (database_name main_db) [] [] defaultNamingTransform = ''MAIN_DB''
   \<and> formatConstantName (database_name main_db_two) [] [] defaultNamingTransform = ''MAIN_DB''
   \<and> generateDatabaseConstants [main_db, main_db_two] ID_DEFAULT_CONFIG
     = databaseConstantEntry ID_DEFAULT_CONFIG main_db @ [newline]
       @ databaseConstantEntry ID_DEFAULT_CONFIG main_db_two
   \<and> generateCollectionConstants [users_one, users_two] ID_DEFAULT_CONFIG
     = collectionConstantEntry ID_DEFAULT_CONFIG users_one @ [newline]
       @ collectionConstantEntry ID_DEFAULT_CONFIG users_two
   \<and> generate (world_of collide_schema) (TypesGenerator tables_config) = Inr collide_text
   \<and> contains_text collide_text
         ''\<newline>export enum UserRole {\<newline>  /** Represents the guest option */\<newline>  GUEST = "guest"\<newline>}''
   \<and> contains_text collide_text ''\<newline>export type UserRoleType = "guest";''
   \<and> \<not> contains_text collide_text ''ADMIN''
   \<and> \<not> contains_text collide_text ''UserRoleType = "admin"''
   \<and> contains_text collide_text
         ''  MAIN_DB: 'db1',\<newline>  /** Database ID for main db */\<newline>  MAIN_DB: 'db2',''
   \<and> contains_text collide_text
         ''  USERS: 'c1',\<newline>  /** Collection ID for users */\<newline>  USERS: 'c2',''\<close>
proof -
  let ?cs = "[\<lparr>name = ''Users'', attributes = [role_attribute]\<rparr>,
              \<lparr>name = ''users'', attributes = [role_two]\<rparr>]"
  have a: "enum_entries ?cs = [(''UserRole'', [''admin'', ''member'']), (''UserRole'', [''guest''])]"
    by code_simp
  have m: "mergeEnumConfig ENUM_DEFAULT_CONFIG no_enum_config
      = \<lparr> generateEnums = True, generateUnionTypes = True, namingStrategy = Pascal \<rparr>"
    by (simp add: mergeEnumConfig_def ENUM_DEFAULT_CONFIG_def no_enum_config_def)
  note t = collision_policy [of ?cs no_enum_config "[]" users_one "[]" users_two "[]"
      ID_DEFAULT_CONFIG "[]" main_db "[]" main_db_two "[]"]
  have b: "generateEnumDefinitions ?cs no_enum_config
     = (generateEnum ''UserRole'' [''guest''] Pascal, generateUnionType ''UserRole'' [''guest''])"
    using t unfolding a m by (simp add: first_occurrences_def last_elements_def)
  have c: "\<not> contains_text (generateEnum ''UserRole'' [''guest''] Pascal) ''ADMIN''"
    by code_simp
  have d1: "formatConstantName (database_name main_db) [] [] defaultNamingTransform = ''MAIN_DB''"
    by code_simp
  have d2: "formatConstantName (database_name main_db_two) [] [] defaultNamingTransform = ''MAIN_DB''"
    by code_simp
  have e1: "generateDatabaseConstants [main_db, main_db_two] ID_DEFAULT_CONFIG
     = databaseConstantEntry ID_DEFAULT_CONFIG main_db @ [newline]
       @ databaseConstantEntry ID_DEFAULT_CONFIG main_db_two"
    by (simp add: generateDatabaseConstants_def)
  have e2: "generateCollectionConstants [users_one, users_two] ID_DEFAULT_CONFIG
     = collectionConstantEntry ID_DEFAULT_CONFIG users_one @ [newline]
       @ collectionConstantEntry ID_DEFAULT_CONFIG users_two"
    by (simp add: generateCollectionConstants_def)
  have f1: \<open>contains_text collide_text
         ''\<newline>export enum UserRole {\<newline>  /** Represents the guest option */\<newline>  GUEST = "guest"\<newline>}''\<close>
    unfolding collide_text_def by simp
  have f2: \<open>contains_text collide_text ''\<newline>export type UserRoleType = "guest";''\<close>
    unfolding collide_text_def by simp
  have f3: "\<not> contains_text collide_text ''ADMIN''"
    unfolding collide_text_def by simp
  have f4: \<open>\<not> contains_text collide_text ''UserRoleType = "admin"''\<close>
    unfolding collide_text_def by simp
  have f5: "contains_text collide_text
         ''  MAIN_DB: 'db1',\<newline>  /** Database ID for main db */\<newline>  MAIN_DB: 'db2',''"
    unfolding collide_text_def by simp
  have f6: "contains_text collide_text
         ''  USERS: 'c1',\<newline>  /** Collection ID for users */\<newline>  USERS: 'c2',''"
    unfolding collide_text_def by simp
  show ?thesis
    by (intro conjI) (rule a b c d1 d2 e1 e2 collide_run f1 f2 f3 f4 f5 f6)+
qed

section \<open>Two runs of the pipeline\<close>

lemma users_run:
  "generate (world_of users_schema) (TypesGenerator default_config) = Inr users_text"
  by code_simp

text \<open>
  C1. For the schema with the database \<^verbatim>\<open>{$id: "db1", name: "Main DB"}\<close> and the default
  configuration, the claim expects the entry \<^verbatim>\<open>MAIN_DB: 'db1'\<close> in the constants section.
  The run prints the flag \<^verbatim>\<open>true\<close> where each table should stand, although the entry
  has been computed: \<^verbatim>\<open>flag ?? table\<close> yields the table only for a flag that is
  \<^verbatim>\<open>undefined\<close>.
\<close>

theorem default_run_prints_flag_for_table:
  "generate (world_of main_db_schema) (TypesGenerator default_config) =
     Inr ''// Auto-generated Appwrite Types\<newline>// Generated on 2024-01-01T00:00:00.000Z\<newline>// WARNING: This file is auto-generated. Do not modify manually.\<newline>\<newline>      true\<newline>\<newline>      true\<newline>''
   \<and> generateDatabaseConstants [main_db]
         (mergeIDConfig ID_DEFAULT_CONFIG (this_idConstantsConfig (TypesGenerator default_config))) =
       ''  /** Database ID for Main DB */\<newline>  MAIN_DB: '' @ [apostrophe] @ ''db1'' @ [apostrophe] @ '',''"
  by code_simp

text \<open>
  C2, as stated: for the collection \<^verbatim>\<open>Users\<close> with the required enum attribute \<^verbatim>\<open>role\<close>,
  the enum would be named \<^verbatim>\<open>UsersRole\<close>. The run prints no such name: the collection
  name loses its plural \<^verbatim>\<open>s\<close> before it is joined with the attribute name.
\<close>

theorem users_enum_name_counterexample:
  "generate (world_of users_schema) (TypesGenerator default_config) = Inr users_text
   \<and> \<not> contains_text users_text ''UsersRole''
   \<and> generateTypeName ''Users'' ''role'' = ''UserRole''"
proof -
  have "\<not> contains_text users_text ''UsersRole''"
    unfolding users_text_def by simp
  moreover have "generateTypeName ''Users'' ''role'' = ''UserRole''"
    by code_simp
  ultimately show ?thesis using users_run by simp
qed

text \<open>
  C2, amended: the text of that run contains the interface field
  \<^verbatim>\<open>role: "admin" | "member";\<close> with no \<^verbatim>\<open>?\<close>, and the enum \<^verbatim>\<open>UserRole\<close> with the members
  \<^verbatim>\<open>ADMIN = "admin"\<close> and \<^verbatim>\<open>MEMBER = "member"\<close>.
\<close>

theorem users_role_output:
  \<open>generate (world_of users_schema) (TypesGenerator default_config) = Inr users_text
   \<and> contains_text users_text ''\<newline>  role: "admin" | "member";\<newline>''
   \<and> \<not> contains_text users_text ''role?''
   \<and> contains_text users_text ''\<newline>export enum UserRole {\<newline>''
   \<and> contains_text users_text ''\<newline>  ADMIN = "admin",\<newline>''
   \<and> contains_text users_text ''\<newline>  MEMBER = "member"\<newline>}''\<close>
proof -
  have \<open>contains_text users_text ''\<newline>  role: "admin" | "member";\<newline>''\<close>
    unfolding users_text_def by simp
  moreover have "\<not> contains_text users_text ''role?''"
    unfolding users_text_def by simp
  moreover have \<open>contains_text users_text ''\<newline>export enum UserRole {\<newline>''\<close>
    unfolding users_text_def by simp
  moreover have \<open>contains_text users_text ''\<newline>  ADMIN = "admin",\<newline>''\<close>
    unfolding users_text_def by simp
  moreover have \<open>contains_text users_text ''\<newline>  MEMBER = "member"\<newline>}''\<close>
    unfolding users_text_def by simp
  ultimately show ?thesis using users_run by simp
qed

end
